theory Spec2Isabelle
  imports Complex_Main
begin

section \<open>Numbers\<close>

text \<open>
  The indicator code computes on pandas Series of float64. The series values are modelled
  by the type \<open>fl\<close>: a real number, the negative zero, the two infinities, or NaN.
  Arithmetic on it is exact on the finite values (rounding, overflow and underflow are
  not modelled) and follows IEEE 754 on the special values, which is what decides the
  branches of the code: a comparison with NaN is false, a division by zero is an
  infinity or NaN and raises nothing in numpy.

  The scalars of \<open>check_risk\<close> and of the risk gate of \<open>WebSocketAnalyzer\<close>
  (balance, price, risk percentage) are Python numbers: floats, or integers whose
  products stay below \<open>2^53\<close>. They are modelled as the real numbers they denote, and
  each arithmetic operation on them rounds its exact result to binary64 (\<open>f64\<close>,
  below), because the risk gate compares a rounded product with the quantity it was
  derived from. A division of Python numbers by zero raises \<open>ZeroDivisionError\<close>.
\<close>

datatype fl = Fin real | NZero | PInf | NInf | NaN

datatype error = IndexError | ZeroDivisionError | TypeError | ValueError

fun fval :: "fl \<Rightarrow> real" where
  "fval (Fin x) = x"
| "fval NZero = 0"
| "fval PInf = 0"
| "fval NInf = 0"
| "fval NaN = 0"

fun is_fin :: "fl \<Rightarrow> bool" where
  "is_fin (Fin x) = True"
| "is_fin NZero = True"
| "is_fin PInf = False"
| "is_fin NInf = False"
| "is_fin NaN = False"

fun is_inf :: "fl \<Rightarrow> bool" where
  "is_inf PInf = True"
| "is_inf NInf = True"
| "is_inf (Fin x) = False"
| "is_inf NZero = False"
| "is_inf NaN = False"

fun is_nan :: "fl \<Rightarrow> bool" where
  "is_nan NaN = True"
| "is_nan (Fin x) = False"
| "is_nan NZero = False"
| "is_nan PInf = False"
| "is_nan NInf = False"

text \<open>The sign bit.\<close>

fun sign_neg :: "fl \<Rightarrow> bool" where
  "sign_neg (Fin x) = (x < 0)"
| "sign_neg NZero = True"
| "sign_neg NInf = True"
| "sign_neg PInf = False"
| "sign_neg NaN = False"

definition is_zero :: "fl \<Rightarrow> bool" where
  "is_zero a = (is_fin a \<and> fval a = 0)"

definition mk_zero :: "bool \<Rightarrow> fl" where
  "mk_zero s = (if s then NZero else Fin 0)"

definition mk_inf :: "bool \<Rightarrow> fl" where
  "mk_inf s = (if s then NInf else PInf)"

definition mk_fin :: "bool \<Rightarrow> real \<Rightarrow> fl" where
  "mk_fin s x = (if x = 0 then mk_zero s else Fin x)"

fun fneg :: "fl \<Rightarrow> fl" where
  "fneg (Fin x) = (if x = 0 then NZero else Fin (- x))"
| "fneg NZero = Fin 0"
| "fneg PInf = NInf"
| "fneg NInf = PInf"
| "fneg NaN = NaN"

fun fabs :: "fl \<Rightarrow> fl" where
  "fabs (Fin x) = Fin \<bar>x\<bar>"
| "fabs NZero = Fin 0"
| "fabs PInf = PInf"
| "fabs NInf = PInf"
| "fabs NaN = NaN"

definition fadd :: "fl \<Rightarrow> fl \<Rightarrow> fl" where
  "fadd a b =
     (if is_nan a \<or> is_nan b then NaN
      else if is_inf a then (if is_inf b \<and> a \<noteq> b then NaN else a)
      else if is_inf b then b
      else if a = NZero \<and> b = NZero then NZero
      else Fin (fval a + fval b))"

definition fsub :: "fl \<Rightarrow> fl \<Rightarrow> fl" where
  "fsub a b = fadd a (fneg b)"

definition fmul :: "fl \<Rightarrow> fl \<Rightarrow> fl" where
  "fmul a b =
     (if is_nan a \<or> is_nan b then NaN
      else if (is_inf a \<and> is_zero b) \<or> (is_zero a \<and> is_inf b) then NaN
      else if is_inf a \<or> is_inf b then mk_inf (sign_neg a \<noteq> sign_neg b)
      else mk_fin (sign_neg a \<noteq> sign_neg b) (fval a * fval b))"

text \<open>Division of float64 values in numpy: no exception, the quotient by zero is an
  infinity, and \<open>0/0\<close> and \<open>inf/inf\<close> are NaN.\<close>

definition fdiv :: "fl \<Rightarrow> fl \<Rightarrow> fl" where
  "fdiv a b =
     (if is_nan a \<or> is_nan b then NaN
      else if (is_inf a \<and> is_inf b) \<or> (is_zero a \<and> is_zero b) then NaN
      else if is_inf a then mk_inf (sign_neg a \<noteq> sign_neg b)
      else if is_inf b then mk_zero (sign_neg a \<noteq> sign_neg b)
      else if is_zero b then mk_inf (sign_neg a \<noteq> sign_neg b)
      else mk_fin (sign_neg a \<noteq> sign_neg b) (fval a / fval b))"

text \<open>\<open>a < b\<close> on floats: false when either side is NaN; the two zeros are equal.\<close>

definition flt :: "fl \<Rightarrow> fl \<Rightarrow> bool" where
  "flt a b =
     (if is_nan a \<or> is_nan b then False
      else if a = NInf then b \<noteq> NInf
      else if b = NInf then False
      else if b = PInf then a \<noteq> PInf
      else if a = PInf then False
      else fval a < fval b)"

definition fgt :: "fl \<Rightarrow> fl \<Rightarrow> bool" where
  "fgt a b = flt b a"

definition feq :: "fl \<Rightarrow> fl \<Rightarrow> bool" where
  "feq a b = (\<not> is_nan a \<and> \<not> is_nan b \<and> \<not> flt a b \<and> \<not> flt b a)"

definition fle :: "fl \<Rightarrow> fl \<Rightarrow> bool" where
  "fle a b = (flt a b \<or> feq a b)"

fun fsqrt :: "fl \<Rightarrow> fl" where
  "fsqrt (Fin x) = (if x < 0 then NaN else Fin (sqrt x))"
| "fsqrt NZero = NZero"
| "fsqrt PInf = PInf"
| "fsqrt NInf = NaN"
| "fsqrt NaN = NaN"

text \<open>\<open>np.log\<close>: minus infinity at zero, NaN on the negative numbers.\<close>

fun flog :: "fl \<Rightarrow> fl" where
  "flog (Fin x) = (if x < 0 then NaN else if x = 0 then NInf else Fin (ln x))"
| "flog NZero = NInf"
| "flog PInf = PInf"
| "flog NInf = NaN"
| "flog NaN = NaN"

text \<open>
  Rounding of a real number to the nearest binary64 value, ties to even: the number is
  scaled by its unit in the last place, \<open>2^(e - 52)\<close> for the exponent \<open>e\<close> of the
  number, and rounded to an integer. The range of the exponent is not bounded here
  (no overflow, no subnormal numbers).
\<close>

definition round_half_even :: "real \<Rightarrow> int" where
  "round_half_even x =
     (let f = \<lfloor>x\<rfloor>; d = x - of_int f
      in if d < 1 / 2 then f else if 1 / 2 < d then f + 1 else if even f then f else f + 1)"

definition f64 :: "real \<Rightarrow> real" where
  "f64 x =
     (if x = 0 then 0
      else (let e = \<lfloor>log 2 \<bar>x\<bar>\<rfloor>; ulp = 2 powr (of_int e - 52)
            in of_int (round_half_even (x / ulp)) * ulp))"


section \<open>Series and data frames\<close>

text \<open>
  A pandas Series of floats is the list of its values in index order (the index is always
  \<open>0, 1, ..., n-1\<close> here). A data frame is the list of its rows; the indicators read the
  columns \<open>close\<close>, \<open>high\<close> and \<open>low\<close> only.
\<close>

type_synonym series = "fl list"

record candle =
  close :: fl
  high :: fl
  low :: fl

type_synonym dataframe = "candle list"

definition col_close :: "dataframe \<Rightarrow> series" where
  "col_close df = map close df"

definition col_high :: "dataframe \<Rightarrow> series" where
  "col_high df = map high df"

definition col_low :: "dataframe \<Rightarrow> series" where
  "col_low df = map low df"

text \<open>\<open>s.iloc[-1]\<close> and \<open>s.iloc[-2]\<close> raise \<open>IndexError\<close> out of range.\<close>

definition iloc_last :: "'a list \<Rightarrow> error + 'a" where
  "iloc_last xs = (if xs = [] then Inl IndexError else Inr (last xs))"

definition iloc_last2 :: "'a list \<Rightarrow> error + 'a" where
  "iloc_last2 xs = (if length xs < 2 then Inl IndexError else Inr (xs ! (length xs - 2)))"

definition bind_r :: "error + 'a \<Rightarrow> ('a \<Rightarrow> error + 'b) \<Rightarrow> error + 'b" where
  "bind_r m f = (case m of Inl e \<Rightarrow> Inl e | Inr v \<Rightarrow> f v)"

text \<open>Element-wise arithmetic of two series of the same length, and with a scalar.\<close>

definition sadd :: "series \<Rightarrow> series \<Rightarrow> series" where
  "sadd xs ys = map2 fadd xs ys"

definition ssub :: "series \<Rightarrow> series \<Rightarrow> series" where
  "ssub xs ys = map2 fsub xs ys"

definition sdiv :: "series \<Rightarrow> series \<Rightarrow> series" where
  "sdiv xs ys = map2 fdiv xs ys"

definition sneg :: "series \<Rightarrow> series" where
  "sneg xs = map fneg xs"

definition sabs :: "series \<Rightarrow> series" where
  "sabs xs = map fabs xs"

definition smul_c :: "fl \<Rightarrow> series \<Rightarrow> series" where
  "smul_c c xs = map (\<lambda>x. fmul c x) xs"

definition sdiv_c :: "series \<Rightarrow> fl \<Rightarrow> series" where
  "sdiv_c xs c = map (\<lambda>x. fdiv x c) xs"

definition cadd_s :: "fl \<Rightarrow> series \<Rightarrow> series" where
  "cadd_s c xs = map (\<lambda>x. fadd c x) xs"

definition csub_s :: "fl \<Rightarrow> series \<Rightarrow> series" where
  "csub_s c xs = map (\<lambda>x. fsub c x) xs"

definition cdiv_s :: "fl \<Rightarrow> series \<Rightarrow> series" where
  "cdiv_s c xs = map (\<lambda>x. fdiv c x) xs"

text \<open>Boolean series of comparisons, and \<open>s.where(cond, other)\<close>: the value where the
  condition holds, \<open>other\<close> elsewhere.\<close>

definition gt_c :: "series \<Rightarrow> fl \<Rightarrow> bool list" where
  "gt_c xs c = map (\<lambda>x. fgt x c) xs"

definition lt_c :: "series \<Rightarrow> fl \<Rightarrow> bool list" where
  "lt_c xs c = map (\<lambda>x. flt x c) xs"

definition gt_s :: "series \<Rightarrow> series \<Rightarrow> bool list" where
  "gt_s xs ys = map2 fgt xs ys"

definition and_s :: "bool list \<Rightarrow> bool list \<Rightarrow> bool list" where
  "and_s cs ds = map2 (\<and>) cs ds"

definition where_s :: "series \<Rightarrow> bool list \<Rightarrow> fl \<Rightarrow> series" where
  "where_s xs cs other = map2 (\<lambda>x c. if c then x else other) xs cs"

text \<open>\<open>s.diff()\<close> and \<open>s.shift(k)\<close>, \<open>s.shift(-k)\<close>: the places without a partner are NaN.\<close>

definition diff :: "series \<Rightarrow> series" where
  "diff xs = map (\<lambda>i. if i = 0 then NaN else fsub (xs ! i) (xs ! (i - 1))) [0..<length xs]"

definition shift :: "nat \<Rightarrow> series \<Rightarrow> series" where
  "shift k xs = map (\<lambda>i. if i < k then NaN else xs ! (i - k)) [0..<length xs]"

definition shift_back :: "nat \<Rightarrow> series \<Rightarrow> series" where
  "shift_back k xs = map (\<lambda>i. if i + k < length xs then xs ! (i + k) else NaN) [0..<length xs]"

definition dropna :: "series \<Rightarrow> series" where
  "dropna xs = filter (\<lambda>v. \<not> is_nan v) xs"

text \<open>\<open>s.fillna(method='bfill')\<close>: a NaN takes the next value that is not NaN, and stays
  NaN when there is none.\<close>

fun bfill :: "series \<Rightarrow> series" where
  "bfill [] = []"
| "bfill (x # xs) =
     (let r = bfill xs
      in (if is_nan x then (case r of [] \<Rightarrow> NaN | y # ys \<Rightarrow> y) else x) # r)"

text \<open>\<open>s.replace([np.inf, -np.inf], np.nan)\<close>.\<close>

definition replace_inf :: "series \<Rightarrow> series" where
  "replace_inf xs = map (\<lambda>x. if is_inf x then NaN else x) xs"

subsection \<open>Rolling windows\<close>

text \<open>
  \<open>s.rolling(window=w, min_periods=m)\<close> aggregates, at index \<open>i\<close>, the values at
  \<open>i-w+1 .. i\<close> that are not NaN, and is NaN when fewer than \<open>m\<close> of them are there
  (\<open>m\<close> is \<open>w\<close> when \<open>min_periods\<close> is not given). pandas turns the infinities of
  the input into NaN before it aggregates, so the observations of a window are its finite
  values. The aggregation is computed on the window itself: the incremental updates of
  pandas and their rounding are not modelled.
\<close>

definition observed :: "series \<Rightarrow> series" where
  "observed xs = filter is_fin xs"

definition window :: "nat \<Rightarrow> nat \<Rightarrow> 'a list \<Rightarrow> 'a list" where
  "window w i xs = drop (Suc i - w) (take (Suc i) xs)"

definition rolling :: "nat \<Rightarrow> nat \<Rightarrow> (fl list \<Rightarrow> fl) \<Rightarrow> series \<Rightarrow> series" where
  "rolling w m agg xs =
     map (\<lambda>i. let obs = observed (window w i xs)
               in if obs \<noteq> [] \<and> m \<le> length obs then agg obs else NaN)
         [0..<length xs]"

definition fsum :: "fl list \<Rightarrow> fl" where
  "fsum xs = foldl fadd (Fin 0) xs"

definition agg_sum :: "fl list \<Rightarrow> fl" where
  "agg_sum xs = fsum xs"

definition agg_mean :: "fl list \<Rightarrow> fl" where
  "agg_mean xs = fdiv (fsum xs) (Fin (real (length xs)))"

text \<open>The sample standard deviation (\<open>ddof = 1\<close>): NaN on fewer than two values.\<close>

definition agg_std :: "fl list \<Rightarrow> fl" where
  "agg_std xs =
     (if length xs < 2 \<or> \<not> list_all is_fin xs then NaN
      else (let ys = map fval xs;
                n = real (length ys);
                mu = sum_list ys / n
            in Fin (sqrt (sum_list (map (\<lambda>y. (y - mu)\<^sup>2) ys) / (n - 1)))))"

definition fmax2 :: "fl \<Rightarrow> fl \<Rightarrow> fl" where
  "fmax2 a b = (if flt a b then b else a)"

definition fmin2 :: "fl \<Rightarrow> fl \<Rightarrow> fl" where
  "fmin2 a b = (if flt b a then b else a)"

definition agg_max :: "fl list \<Rightarrow> fl" where
  "agg_max xs = (case xs of [] \<Rightarrow> NaN | y # ys \<Rightarrow> foldl fmax2 y ys)"

definition agg_min :: "fl list \<Rightarrow> fl" where
  "agg_min xs = (case xs of [] \<Rightarrow> NaN | y # ys \<Rightarrow> foldl fmin2 y ys)"

text \<open>\<open>pd.concat([a, b, c], axis=1).max(axis=1)\<close>: the row-wise maximum, NaN skipped.\<close>

definition row_max3 :: "series \<Rightarrow> series \<Rightarrow> series \<Rightarrow> series" where
  "row_max3 xs ys zs = map (\<lambda>(x, y, z). agg_max (dropna [x, y, z])) (zip xs (zip ys zs))"

text \<open>\<open>s.median()\<close>: of the values that are not NaN.\<close>

fun insert_fl :: "fl \<Rightarrow> fl list \<Rightarrow> fl list" where
  "insert_fl x [] = [x]"
| "insert_fl x (y # ys) = (if flt y x then y # insert_fl x ys else x # y # ys)"

definition sort_fl :: "fl list \<Rightarrow> fl list" where
  "sort_fl xs = foldr insert_fl xs []"

definition median :: "series \<Rightarrow> fl" where
  "median xs =
     (let ys = sort_fl (dropna xs); n = length ys
      in if n = 0 then NaN
         else if odd n then ys ! (n div 2)
         else fdiv (fadd (ys ! (n div 2 - 1)) (ys ! (n div 2))) (Fin 2))"

subsection \<open>Exponentially weighted mean\<close>

text \<open>
  \<open>s.ewm(span=k, adjust=False).mean()\<close> with \<open>alpha = 2 / (k + 1)\<close>: the first value
  seeds the mean, then \<open>y = (1 - alpha) * y_prev + alpha * x\<close>. A NaN observation is
  skipped: the mean is carried over and the weight of the old mean decays once more
  (\<open>ignore_na=False\<close>).
\<close>

fun ewm_go :: "real \<Rightarrow> fl \<Rightarrow> real \<Rightarrow> series \<Rightarrow> series" where
  "ewm_go alpha weighted old_wt [] = []"
| "ewm_go alpha weighted old_wt (cur # xs) =
     (if \<not> is_nan weighted then
        (let old_wt' = old_wt * (1 - alpha)
         in if \<not> is_nan cur then
              (let w' = (if \<not> feq weighted cur
                         then fdiv (fadd (fmul (Fin old_wt') weighted) (fmul (Fin alpha) cur))
                                   (Fin (old_wt' + alpha))
                         else weighted)
               in w' # ewm_go alpha w' 1 xs)
            else weighted # ewm_go alpha weighted old_wt' xs)
      else if \<not> is_nan cur then cur # ewm_go alpha cur old_wt xs
      else NaN # ewm_go alpha NaN old_wt xs)"

definition ewm_mean :: "nat \<Rightarrow> series \<Rightarrow> series" where
  "ewm_mean span_n xs =
     (case xs of [] \<Rightarrow> [] | x # ys \<Rightarrow> x # ewm_go (2 / (real span_n + 1)) x 1 ys)"

section \<open>The indicator functions of app/utils/strategy.py\<close>

text \<open>
  Each function returns a pair of a signal string and a value; the value is \<open>None\<close>, a
  float, or a pair of these.
\<close>

datatype pyval = PNone | PFloat fl | PPair pyval pyval

text \<open>
  \<^verbatim>\<open>
  def calculate_rsi(historical_data, period=14):
      if len(historical_data) < period:
          return "NEUTRAL", None
      delta = historical_data['close'].diff()
      gain = delta.where(delta > 0, 0).rolling(window=period).mean()
      loss = -delta.where(delta < 0, 0).rolling(window=period).mean()
      rs = gain / loss
      rsi = 100 - (100 / (1 + rs))
      signal = "SELL" if rsi.iloc[-1] > 70 else "BUY" if rsi.iloc[-1] < 30 else "NEUTRAL"
      return signal, rsi.iloc[-1]
  \<close>
  The unary minus of \<open>loss\<close> applies to the rolling mean.
\<close>

definition rsi_of_rs :: "series \<Rightarrow> series" where
  "rsi_of_rs rs = csub_s (Fin 100) (cdiv_s (Fin 100) (cadd_s (Fin 1) rs))"

definition calculate_rsi :: "dataframe \<Rightarrow> nat \<Rightarrow> error + string \<times> pyval" where
  "calculate_rsi historical_data period =
     (if length historical_data < period then Inr (''NEUTRAL'', PNone)
      else
        (let delta = diff (col_close historical_data);
             gain = rolling period period agg_mean (where_s delta (gt_c delta (Fin 0)) (Fin 0));
             loss = sneg (rolling period period agg_mean
                            (where_s delta (lt_c delta (Fin 0)) (Fin 0)));
             rs = sdiv gain loss;
             rsi = rsi_of_rs rs
         in bind_r (iloc_last rsi) (\<lambda>r.
              Inr (if fgt r (Fin 70) then ''SELL''
                   else if flt r (Fin 30) then ''BUY'' else ''NEUTRAL'',
                   PFloat r))))"

text \<open>
  \<^verbatim>\<open>
  def calculate_macd(historical_data, short_period=12, long_period=26, signal_period=9):
      if len(historical_data) < long_period:
          return "NEUTRAL", None
      short_ema = historical_data['close'].ewm(span=short_period, adjust=False).mean()
      long_ema = historical_data['close'].ewm(span=long_period, adjust=False).mean()
      macd = short_ema - long_ema
      signal_line = macd.ewm(span=signal_period, adjust=False).mean()
      signal = "BUY" if macd.iloc[-1] > signal_line.iloc[-1] else
               "SELL" if macd.iloc[-1] < signal_line.iloc[-1] else "NEUTRAL"
      return signal, macd.iloc[-1]
  \<close>
\<close>

definition calculate_macd :: "dataframe \<Rightarrow> nat \<Rightarrow> nat \<Rightarrow> nat \<Rightarrow> error + string \<times> pyval" where
  "calculate_macd historical_data short_period long_period signal_period =
     (if length historical_data < long_period then Inr (''NEUTRAL'', PNone)
      else
        (let short_ema = ewm_mean short_period (col_close historical_data);
             long_ema = ewm_mean long_period (col_close historical_data);
             macd = ssub short_ema long_ema;
             signal_line = ewm_mean signal_period macd
         in bind_r (iloc_last macd) (\<lambda>m.
            bind_r (iloc_last signal_line) (\<lambda>sl.
              Inr (if fgt m sl then ''BUY'' else if flt m sl then ''SELL'' else ''NEUTRAL'',
                   PFloat m)))))"

text \<open>
  \<^verbatim>\<open>
  def calculate_sma(historical_data, period=14):
      if len(historical_data) < period:
          return "NEUTRAL", None
      sma_series = historical_data['close'].rolling(window=period).mean()
      latest_price = historical_data['close'].iloc[-1]
      latest_sma = sma_series.iloc[-1]
      signal = "BUY" if latest_price > latest_sma else "SELL"
      return signal, latest_sma
  \<close>
\<close>

definition calculate_sma :: "dataframe \<Rightarrow> nat \<Rightarrow> error + string \<times> pyval" where
  "calculate_sma historical_data period =
     (if length historical_data < period then Inr (''NEUTRAL'', PNone)
      else
        (let sma_series = rolling period period agg_mean (col_close historical_data)
         in bind_r (iloc_last (col_close historical_data)) (\<lambda>latest_price.
            bind_r (iloc_last sma_series) (\<lambda>latest_sma.
              Inr (if fgt latest_price latest_sma then ''BUY'' else ''SELL'',
                   PFloat latest_sma)))))"

text \<open>
  \<^verbatim>\<open>
  def calculate_bollinger_bands(historical_data, period=14, num_std_dev=2):
      if len(historical_data) < period:
          return "NEUTRAL", (None, None)
      sma = historical_data['close'].rolling(window=period).mean()
      rolling_std = historical_data['close'].rolling(window=period).std()
      upper_band = sma + (rolling_std * num_std_dev)
      lower_band = sma - (rolling_std * num_std_dev)
      signal = "BUY" if historical_data['close'].iloc[-1] < lower_band.iloc[-1] else
               "SELL" if historical_data['close'].iloc[-1] > upper_band.iloc[-1] else "NEUTRAL"
      return signal, (upper_band.iloc[-1], lower_band.iloc[-1])
  \<close>
\<close>

definition calculate_bollinger_bands :: "dataframe \<Rightarrow> nat \<Rightarrow> fl \<Rightarrow> error + string \<times> pyval" where
  "calculate_bollinger_bands historical_data period num_std_dev =
     (if length historical_data < period then Inr (''NEUTRAL'', PPair PNone PNone)
      else
        (let sma = rolling period period agg_mean (col_close historical_data);
             rolling_std = rolling period period agg_std (col_close historical_data);
             upper_band = sadd sma (smul_c num_std_dev rolling_std);
             lower_band = ssub sma (smul_c num_std_dev rolling_std)
         in bind_r (iloc_last (col_close historical_data)) (\<lambda>c.
            bind_r (iloc_last lower_band) (\<lambda>lb.
            bind_r (iloc_last upper_band) (\<lambda>ub.
              Inr (if flt c lb then ''BUY'' else if fgt c ub then ''SELL'' else ''NEUTRAL'',
                   PPair (PFloat ub) (PFloat lb)))))))"

text \<open>
  The function named \<open>calculate_adx\<close> in this module computes, as its docstring says, the
  Ichimoku cloud signal; it never returns a value.
  \<^verbatim>\<open>
  def calculate_adx(historical_data, period=14):
      """Calculate the Ichimoku Cloud strategy and generate a trading signal."""
      if len(historical_data) < 52:
          return "NEUTRAL", None
      high_9 = historical_data['high'].rolling(window=9).max()
      low_9 = historical_data['low'].rolling(window=9).min()
      tenkan_sen = (high_9 + low_9) / 2
      high_26 = historical_data['high'].rolling(window=26).max()
      low_26 = historical_data['low'].rolling(window=26).min()
      kijun_sen = (high_26 + low_26) / 2
      high_52 = historical_data['high'].rolling(window=52).max()
      low_52 = historical_data['low'].rolling(window=52).min()
      senkou_span_b = (high_52 + low_52) / 2
      senkou_span_a = ((tenkan_sen + kijun_sen) / 2).shift(26)
      chikou_span = historical_data['close'].shift(-26)
      if historical_data['close'].iloc[-1] > senkou_span_a.iloc[-1]
           and tenkan_sen.iloc[-1] > kijun_sen.iloc[-1]:
          signal = "BUY"
      elif historical_data['close'].iloc[-1] < senkou_span_a.iloc[-1]
           and tenkan_sen.iloc[-1] < kijun_sen.iloc[-1]:
          signal = "SELL"
      else:
          signal = "NEUTRAL"
      return signal, None
  \<close>
  \<open>senkou_span_b\<close> and \<open>chikou_span\<close> are computed and not read.
\<close>

definition calculate_adx :: "dataframe \<Rightarrow> nat \<Rightarrow> error + string \<times> pyval" where
  "calculate_adx historical_data period =
     (if length historical_data < 52 then Inr (''NEUTRAL'', PNone)
      else
        (let high_9 = rolling 9 9 agg_max (col_high historical_data);
             low_9 = rolling 9 9 agg_min (col_low historical_data);
             tenkan_sen = sdiv_c (sadd high_9 low_9) (Fin 2);
             high_26 = rolling 26 26 agg_max (col_high historical_data);
             low_26 = rolling 26 26 agg_min (col_low historical_data);
             kijun_sen = sdiv_c (sadd high_26 low_26) (Fin 2);
             senkou_span_a = shift 26 (sdiv_c (sadd tenkan_sen kijun_sen) (Fin 2))
         in bind_r (iloc_last (col_close historical_data)) (\<lambda>c.
            bind_r (iloc_last senkou_span_a) (\<lambda>sa.
            bind_r (iloc_last tenkan_sen) (\<lambda>t.
            bind_r (iloc_last kijun_sen) (\<lambda>k.
              Inr (if fgt c sa \<and> fgt t k then ''BUY''
                   else if flt c sa \<and> flt t k then ''SELL'' else ''NEUTRAL'',
                   PNone)))))))"

text \<open>
  \<^verbatim>\<open>
  def calculate_vtr(historical_data, period=14):
      if len(historical_data) < period:
          return "NEUTRAL", None
      log_returns = np.log(historical_data['close'] / historical_data['close'].shift(1))
      volatility = log_returns.rolling(window=period).std() * np.sqrt(period)
      signal = "BUY" if volatility.iloc[-1] < volatility.median() else "SELL"
      return signal, volatility.iloc[-1]
  \<close>
\<close>

definition calculate_vtr :: "dataframe \<Rightarrow> nat \<Rightarrow> error + string \<times> pyval" where
  "calculate_vtr historical_data period =
     (if length historical_data < period then Inr (''NEUTRAL'', PNone)
      else
        (let log_returns = map flog (sdiv (col_close historical_data)
                                          (shift 1 (col_close historical_data)));
             volatility = map (\<lambda>x. fmul x (Fin (sqrt (real period))))
                              (rolling period period agg_std log_returns)
         in bind_r (iloc_last volatility) (\<lambda>v.
              Inr (if flt v (median volatility) then ''BUY'' else ''SELL'', PFloat v))))"

text \<open>
  \<^verbatim>\<open>
  def calculate_stochastic(historical_data, period=14, smooth_k=3, smooth_d=3):
      if len(historical_data) < period:
          return "NEUTRAL", (None, None)
      lowest_low = historical_data['low'].rolling(window=period).min()
      highest_high = historical_data['high'].rolling(window=period).max()
      k = 100 * (historical_data['close'] - lowest_low) / (highest_high - lowest_low)
      d = k.rolling(window=smooth_d).mean()
      signal = "BUY" if k.iloc[-1] > d.iloc[-1] else "SELL" if k.iloc[-1] < d.iloc[-1]
               else "NEUTRAL"
      return signal, (k.iloc[-1], d.iloc[-1])
  \<close>
\<close>

definition calculate_stochastic :: "dataframe \<Rightarrow> nat \<Rightarrow> nat \<Rightarrow> error + string \<times> pyval" where
  "calculate_stochastic historical_data period smooth_d =
     (if length historical_data < period then Inr (''NEUTRAL'', PPair PNone PNone)
      else
        (let lowest_low = rolling period period agg_min (col_low historical_data);
             highest_high = rolling period period agg_max (col_high historical_data);
             k = sdiv (smul_c (Fin 100) (ssub (col_close historical_data) lowest_low))
                      (ssub highest_high lowest_low);
             d = rolling smooth_d smooth_d agg_mean k
         in bind_r (iloc_last k) (\<lambda>kl.
            bind_r (iloc_last d) (\<lambda>dl.
              Inr (if fgt kl dl then ''BUY'' else if flt kl dl then ''SELL'' else ''NEUTRAL'',
                   PPair (PFloat kl) (PFloat dl))))))"

section \<open>Risk sizing (app/utils/strategy.py)\<close>

text \<open>
  \<^verbatim>\<open>
  def check_risk(balance, price, risk_threshold=2):
      if balance <= 0 or price <= 0:
          return "Invalid Input", None
      risk_amount = balance * risk_threshold / 100
      position_size = risk_amount / price
      return "Position Size", position_size
  \<close>
  The division is reached with \<open>price > 0\<close> only, so it cannot raise.
\<close>

definition check_risk :: "real \<Rightarrow> real \<Rightarrow> real \<Rightarrow> string \<times> real option" where
  "check_risk balance price risk_threshold =
     (if balance \<le> 0 \<or> price \<le> 0 then (''Invalid Input'', None)
      else (let risk_amount = f64 (f64 (balance * risk_threshold) / 100);
                position_size = f64 (risk_amount / price)
            in (''Position Size'', Some position_size)))"

section \<open>The vote of AnalyzerAgent.analyze (app/agents/analizer_agent.py)\<close>

text \<open>
  \<^verbatim>\<open>
  analysis_results = {
      "RSI": rsi_tool._run(historical_df, config=None),
      "MACD": macd_tool._run(historical_df, config=None),
      "SMA": sma_tool._run(historical_df, config=None),
      "Bollinger Bands": bollinger_tool._run(historical_df, config=None),
      "VTR (Volatility)": vtr_tool._run(historical_df, config=None),
      "Stochastic": stochastic_tool._run(historical_df, config=None)
  }
  \<close>
  Each tool wraps the function of the same name of app/utils/strategy.py, called with its
  default parameters. The dictionary is the list of its items in insertion order.
\<close>

definition analysis_results :: "dataframe \<Rightarrow> error + (string \<times> string \<times> pyval) list" where
  "analysis_results historical_df =
     bind_r (calculate_rsi historical_df 14) (\<lambda>r1.
     bind_r (calculate_macd historical_df 12 26 9) (\<lambda>r2.
     bind_r (calculate_sma historical_df 14) (\<lambda>r3.
     bind_r (calculate_bollinger_bands historical_df 14 (Fin 2)) (\<lambda>r4.
     bind_r (calculate_vtr historical_df 14) (\<lambda>r5.
     bind_r (calculate_stochastic historical_df 14 3) (\<lambda>r6.
       Inr [(''RSI'', r1), (''MACD'', r2), (''SMA'', r3), (''Bollinger Bands'', r4),
            (''VTR (Volatility)'', r5), (''Stochastic'', r6)]))))))"

text \<open>
  \<^verbatim>\<open>
  buy_signals = sum(1 for key, value in analysis_results.items() if value[0] == "BUY")
  sell_signals = sum(1 for key, value in analysis_results.items() if value[0] == "SELL")
  if buy_signals >= 3:
      analyzer_signal = "BUY"
  elif sell_signals >= 3:
      analyzer_signal = "SELL"
  else:
      analyzer_signal = "HOLD"
  \<close>
\<close>

definition buy_signals :: "(string \<times> string \<times> pyval) list \<Rightarrow> nat" where
  "buy_signals items = length (filter (\<lambda>(key, val). fst val = ''BUY'') items)"

definition sell_signals :: "(string \<times> string \<times> pyval) list \<Rightarrow> nat" where
  "sell_signals items = length (filter (\<lambda>(key, val). fst val = ''SELL'') items)"

definition analyzer_signal :: "(string \<times> string \<times> pyval) list \<Rightarrow> string" where
  "analyzer_signal items =
     (if buy_signals items \<ge> 3 then ''BUY''
      else if sell_signals items \<ge> 3 then ''SELL''
      else ''HOLD'')"

section \<open>WebSocketAnalyzer (app/coinbase_/websocket_analyser.py)\<close>

text \<open>
  The fields of the object. \<open>price\<close> is \<open>None\<close> unless the caller gives one; the
  balance, the risk threshold and the price are Python numbers.
\<close>

record ws_analyzer =
  ws_risk_threshold :: real
  ws_balance :: real
  ws_period :: nat
  ws_price :: "real option"
  ws_historical_data :: dataframe

text \<open>
  A strategy returns a string, a tuple of a string and a value (\<open>calculate_sma\<close>), or a
  Series (\<open>calculate_vtr\<close>, \<open>calculate_stochastic_oscillator\<close>).
\<close>

datatype strategy_result = RStr string | RTuple string pyval | RSeries series

text \<open>
  \<open>str(result)\<close>. A string is itself. A tuple prints as \<open>('BUY', v)\<close>, and a Series
  prints its rows followed by a \<open>dtype: ...\<close> footer (an empty one as
  \<open>Series([], ... dtype: ...)\<close>). How a float, the rows of a Series and its dtype print
  depends on the library version and is left open in the record \<open>rendering\<close>.
\<close>

record rendering =
  repr_val :: "pyval \<Rightarrow> string"
  series_rows :: "series \<Rightarrow> string"
  dtype_name :: string

definition py_str :: "rendering \<Rightarrow> strategy_result \<Rightarrow> string" where
  "py_str rd r =
     (case r of
        RStr s \<Rightarrow> s
      | RTuple s v \<Rightarrow> ''('' @ [CHR 0x27] @ s @ [CHR 0x27] @ '', '' @ repr_val rd v @ '')''
      | RSeries xs \<Rightarrow>
          (if xs = [] then ''Series([], '' @ series_rows rd xs @ ''dtype: '' @ dtype_name rd @ '')''
           else series_rows rd xs @ ''dtype: '' @ dtype_name rd))"

text \<open>
  \<^verbatim>\<open>
  def calculate_signal(self, strategy_results):
      if isinstance(strategy_results, pd.Series):
          strategy_results = strategy_results.tolist()
      buy_count = sum(1 for result in strategy_results if str(result) == "BUY")
      sell_count = sum(1 for result in strategy_results if str(result) == "SELL")
      if buy_count >= 5:
          return "BUY"
      elif sell_count >= 4:
          return "SELL"
      return "NEUTRAL"
  \<close>
  The argument is the list built by \<open>run_strategies\<close>, never a Series.
\<close>

definition buy_count :: "rendering \<Rightarrow> strategy_result list \<Rightarrow> nat" where
  "buy_count rd strategy_results = length (filter (\<lambda>r. py_str rd r = ''BUY'') strategy_results)"

definition sell_count :: "rendering \<Rightarrow> strategy_result list \<Rightarrow> nat" where
  "sell_count rd strategy_results = length (filter (\<lambda>r. py_str rd r = ''SELL'') strategy_results)"

definition calculate_signal :: "rendering \<Rightarrow> strategy_result list \<Rightarrow> string" where
  "calculate_signal rd strategy_results =
     (if buy_count rd strategy_results \<ge> 5 then ''BUY''
      else if sell_count rd strategy_results \<ge> 4 then ''SELL''
      else ''NEUTRAL'')"

text \<open>
  \<^verbatim>\<open>
  def calculate_position_size(self):
      risk_amount = self.balance * self.risk_threshold / 100
      position_size = risk_amount / self.price
      return position_size

  def check_risk(self):
      position_size = self.calculate_position_size()
      risk_amount = self.balance * self.risk_threshold / 100
      if position_size * self.price > risk_amount:
          return False
      return True
  \<close>
  The division raises \<open>TypeError\<close> when the price is \<open>None\<close> and
  \<open>ZeroDivisionError\<close> when it is zero.
\<close>

definition calculate_position_size :: "ws_analyzer \<Rightarrow> error + real" where
  "calculate_position_size self =
     (let risk_amount = f64 (f64 (ws_balance self * ws_risk_threshold self) / 100)
      in case ws_price self of
           None \<Rightarrow> Inl TypeError
         | Some p \<Rightarrow> if p = 0 then Inl ZeroDivisionError else Inr (f64 (risk_amount / p)))"

definition ws_check_risk :: "ws_analyzer \<Rightarrow> error + bool" where
  "ws_check_risk self =
     bind_r (calculate_position_size self) (\<lambda>position_size.
       (let risk_amount = f64 (f64 (ws_balance self * ws_risk_threshold self) / 100)
        in case ws_price self of
             None \<Rightarrow> Inl TypeError
           | Some p \<Rightarrow> if f64 (position_size * p) > risk_amount then Inr False else Inr True))"

subsection \<open>The strategies of WebSocketAnalyzer\<close>

text \<open>
  \<^verbatim>\<open>
  def calculate_rsi(self):
      delta = self.historical_data['close'].diff()
      gain = (delta.where(delta > 0, 0)).rolling(window=self.period).mean()
      loss = (-delta.where(delta < 0, 0)).rolling(window=self.period).mean()
      rs = gain / loss
      rsi = 100 - (100 / (1 + rs))
      if rsi.iloc[-1] > 70:
          return "SELL"
      elif rsi.iloc[-1] < 30:
          return "BUY"
      return "NEUTRAL"
  \<close>
  There is no check of the length; \<open>iloc[-1]\<close> raises on an empty frame.
\<close>

definition ws_calculate_rsi :: "ws_analyzer \<Rightarrow> error + strategy_result" where
  "ws_calculate_rsi self =
     (let delta = diff (col_close (ws_historical_data self));
          gain = rolling (ws_period self) (ws_period self) agg_mean
                   (where_s delta (gt_c delta (Fin 0)) (Fin 0));
          loss = rolling (ws_period self) (ws_period self) agg_mean
                   (sneg (where_s delta (lt_c delta (Fin 0)) (Fin 0)));
          rs = sdiv gain loss;
          rsi = rsi_of_rs rs
      in bind_r (iloc_last rsi) (\<lambda>r.
           if fgt r (Fin 70) then Inr (RStr ''SELL'')
           else if flt r (Fin 30) then Inr (RStr ''BUY'')
           else Inr (RStr ''NEUTRAL'')))"

text \<open>
  \<^verbatim>\<open>
  def calculate_macd(self, short_period=12, long_period=26, signal_period=9):
      short_ema = self.historical_data['close'].ewm(span=short_period, adjust=False).mean()
      long_ema = self.historical_data['close'].ewm(span=long_period, adjust=False).mean()
      macd = short_ema - long_ema
      signal_line = macd.ewm(span=signal_period, adjust=False).mean()
      if macd.iloc[-1] > signal_line.iloc[-1]:
          return "BUY"
      elif macd.iloc[-1] < signal_line.iloc[-1]:
          return "SELL"
      return "NEUTRAL"
  \<close>
\<close>

definition ws_calculate_macd :: "ws_analyzer \<Rightarrow> nat \<Rightarrow> nat \<Rightarrow> nat \<Rightarrow> error + strategy_result" where
  "ws_calculate_macd self short_period long_period signal_period =
     (let short_ema = ewm_mean short_period (col_close (ws_historical_data self));
          long_ema = ewm_mean long_period (col_close (ws_historical_data self));
          macd = ssub short_ema long_ema;
          signal_line = ewm_mean signal_period macd
      in bind_r (iloc_last macd) (\<lambda>m.
         bind_r (iloc_last signal_line) (\<lambda>sl.
           if fgt m sl then Inr (RStr ''BUY'')
           else if flt m sl then Inr (RStr ''SELL'')
           else Inr (RStr ''NEUTRAL''))))"

text \<open>
  \<^verbatim>\<open>
  def calculate_sma(self):
      if len(self.historical_data) < self.period:
          return "NEUTRAL", None
      sma_series = self.historical_data['close'].rolling(window=self.period).mean()
      if sma_series.isna().all():
          return "NEUTRAL", None
      latest_price = self.historical_data['close'].iloc[-1]
      latest_sma = sma_series.iloc[-1]
      return "BUY" if latest_price > latest_sma else "SELL", latest_sma
  \<close>
\<close>

definition ws_calculate_sma :: "ws_analyzer \<Rightarrow> error + string \<times> pyval" where
  "ws_calculate_sma self =
     (if length (ws_historical_data self) < ws_period self then Inr (''NEUTRAL'', PNone)
      else
        (let sma_series = rolling (ws_period self) (ws_period self) agg_mean
                            (col_close (ws_historical_data self))
         in if list_all is_nan sma_series then Inr (''NEUTRAL'', PNone)
            else
              bind_r (iloc_last (col_close (ws_historical_data self))) (\<lambda>latest_price.
              bind_r (iloc_last sma_series) (\<lambda>latest_sma.
                Inr (if fgt latest_price latest_sma then ''BUY'' else ''SELL'',
                     PFloat latest_sma)))))"

text \<open>
  \<^verbatim>\<open>
  def calculate_bollinger_bands(self, num_std_dev=2):
      sma, sma_val = self.calculate_sma()
      rolling_std = self.historical_data['close'].rolling(window=self.period).std()
      if not isinstance(sma_val, (int, float)):
          return "Error"
      if sma=="Neutral" and rolling_std.isna().any():
          return "Error"
      upper_band = sma_val + (rolling_std * num_std_dev)
      lower_band = sma_val - (rolling_std * num_std_dev)
      if self.historical_data['close'].iloc[-1] < lower_band.iloc[-1]:
          return "BUY"
      elif self.historical_data['close'].iloc[-1] > upper_band.iloc[-1]:
          return "SELL"
      return "NEUTRAL"
  \<close>
  \<open>sma_val\<close> is \<open>None\<close> or a float64, which is an instance of \<open>float\<close>.
\<close>

definition ws_calculate_bollinger_bands :: "ws_analyzer \<Rightarrow> fl \<Rightarrow> error + strategy_result" where
  "ws_calculate_bollinger_bands self num_std_dev =
     bind_r (ws_calculate_sma self) (\<lambda>(sma, sma_val).
       (let rolling_std = rolling (ws_period self) (ws_period self) agg_std
                            (col_close (ws_historical_data self))
        in case sma_val of
             PFloat v \<Rightarrow>
               if sma = ''Neutral'' \<and> list_ex is_nan rolling_std then Inr (RStr ''Error'')
               else
                 (let upper_band = cadd_s v (smul_c num_std_dev rolling_std);
                      lower_band = csub_s v (smul_c num_std_dev rolling_std)
                  in bind_r (iloc_last (col_close (ws_historical_data self))) (\<lambda>c.
                     bind_r (iloc_last lower_band) (\<lambda>lb.
                       if flt c lb then Inr (RStr ''BUY'')
                       else
                         bind_r (iloc_last upper_band) (\<lambda>ub.
                           if fgt c ub then Inr (RStr ''SELL'')
                           else Inr (RStr ''NEUTRAL'')))))
           | _ \<Rightarrow> Inr (RStr ''Error'')))"

text \<open>
  \<^verbatim>\<open>
  def calculate_adx(self):
      high = self.historical_data['high']
      low = self.historical_data['low']
      close = self.historical_data['close']
      tr = pd.concat([high - low, abs(high - close.shift()),
                      abs(low - close.shift())], axis=1).max(axis=1)
      atr = tr.rolling(window=self.period).mean()
      plus_dm = high.diff()
      minus_dm = low.diff()
      plus_dm = plus_dm.where(plus_dm > 0, 0)
      minus_dm = minus_dm.where(minus_dm > 0, 0)
      plus_di = 100 * (plus_dm.rolling(window=self.period).sum() / atr)
      minus_di = 100 * (minus_dm.rolling(window=self.period).sum() / atr)
      adx = (abs(plus_di - minus_di) / (abs(plus_di + minus_di)) * 100)
              .rolling(window=self.period).mean()
      if adx.iloc[-1] > 25:
          return "BUY"
      return "SELL"
  \<close>
\<close>

definition ws_true_range :: "dataframe \<Rightarrow> series" where
  "ws_true_range df =
     row_max3 (ssub (col_high df) (col_low df))
              (sabs (ssub (col_high df) (shift 1 (col_close df))))
              (sabs (ssub (col_low df) (shift 1 (col_close df))))"

definition ws_atr :: "nat \<Rightarrow> dataframe \<Rightarrow> series" where
  "ws_atr period df = rolling period period agg_mean (ws_true_range df)"

definition ws_plus_dm :: "dataframe \<Rightarrow> series" where
  "ws_plus_dm df = (let plus_dm = diff (col_high df) in where_s plus_dm (gt_c plus_dm (Fin 0)) (Fin 0))"

definition ws_minus_dm :: "dataframe \<Rightarrow> series" where
  "ws_minus_dm df = (let minus_dm = diff (col_low df) in where_s minus_dm (gt_c minus_dm (Fin 0)) (Fin 0))"

definition ws_plus_di :: "nat \<Rightarrow> dataframe \<Rightarrow> series" where
  "ws_plus_di period df =
     smul_c (Fin 100) (sdiv (rolling period period agg_sum (ws_plus_dm df)) (ws_atr period df))"

definition ws_minus_di :: "nat \<Rightarrow> dataframe \<Rightarrow> series" where
  "ws_minus_di period df =
     smul_c (Fin 100) (sdiv (rolling period period agg_sum (ws_minus_dm df)) (ws_atr period df))"

definition ws_adx_series :: "nat \<Rightarrow> dataframe \<Rightarrow> series" where
  "ws_adx_series period df =
     rolling period period agg_mean
       (map (\<lambda>x. fmul x (Fin 100))
            (sdiv (sabs (ssub (ws_plus_di period df) (ws_minus_di period df)))
                  (sabs (sadd (ws_plus_di period df) (ws_minus_di period df)))))"

definition ws_calculate_adx :: "ws_analyzer \<Rightarrow> error + strategy_result" where
  "ws_calculate_adx self =
     (let adx = ws_adx_series (ws_period self) (ws_historical_data self)
      in bind_r (iloc_last adx) (\<lambda>a.
           if fgt a (Fin 25) then Inr (RStr ''BUY'') else Inr (RStr ''SELL'')))"

text \<open>
  \<^verbatim>\<open>
  def calculate_vtr(self):
      return self.historical_data['close'].rolling(window=self.period).std()

  def calculate_stochastic_oscillator(self):
      low_min = self.historical_data['low'].rolling(window=self.period).min()
      high_max = self.historical_data['high'].rolling(window=self.period).max()
      close_prices = self.historical_data['close']
      return 100 * (close_prices - low_min) / (high_max - low_min)
  \<close>
\<close>

definition ws_calculate_vtr :: "ws_analyzer \<Rightarrow> series" where
  "ws_calculate_vtr self =
     rolling (ws_period self) (ws_period self) agg_std (col_close (ws_historical_data self))"

definition stochastic_series :: "nat \<Rightarrow> dataframe \<Rightarrow> series" where
  "stochastic_series period df =
     (let low_min = rolling period period agg_min (col_low df);
          high_max = rolling period period agg_max (col_high df);
          close_prices = col_close df
      in sdiv (smul_c (Fin 100) (ssub close_prices low_min)) (ssub high_max low_min))"

definition ws_calculate_stochastic_oscillator :: "ws_analyzer \<Rightarrow> series" where
  "ws_calculate_stochastic_oscillator self =
     stochastic_series (ws_period self) (ws_historical_data self)"

text \<open>
  \<^verbatim>\<open>
  def run_strategies(self):
      results = []
      results.append(self.calculate_rsi())
      results.append(self.calculate_macd())
      results.append(self.calculate_sma())
      results.append(self.calculate_bollinger_bands())
      results.append(self.calculate_adx())
      results.append(self.calculate_vtr())
      results.append(self.calculate_stochastic_oscillator())
      return results
  \<close>
\<close>

definition run_strategies :: "ws_analyzer \<Rightarrow> error + strategy_result list" where
  "run_strategies self =
     bind_r (ws_calculate_rsi self) (\<lambda>r1.
     bind_r (ws_calculate_macd self 12 26 9) (\<lambda>r2.
     bind_r (ws_calculate_sma self) (\<lambda>(s3, v3).
     bind_r (ws_calculate_bollinger_bands self (Fin 2)) (\<lambda>r4.
     bind_r (ws_calculate_adx self) (\<lambda>r5.
       Inr [r1, r2, RTuple s3 v3, r4, r5,
            RSeries (ws_calculate_vtr self),
            RSeries (ws_calculate_stochastic_oscillator self)])))))"

text \<open>
  \<^verbatim>\<open>
  def update_data(self, websocket_data):
      tickers = websocket_data.get('events', [])[0].get('tickers', [])
      if not tickers:
          return
      for ticker in tickers:
          close_price = float(ticker.get('price', 0))
          high_price = float(ticker.get('high_24_h', 0))
          low_price = float(ticker.get('low_24_h', 0))
          if close_price == 0:
              continue
          new_row = pd.DataFrame({'close': [close_price], 'high': [high_price],
                                  'low': [low_price]})
          self.historical_data = pd.concat([self.historical_data, new_row],
                                           ignore_index=True).dropna()
  \<close>
  A message is the list of its events, an event the list of its tickers, and a ticker the
  row of its three numbers as \<open>float\<close> reads them (0 for a missing key). Indexing the
  first event of a message without events raises \<open>IndexError\<close>. \<open>dropna\<close> removes the
  rows with a NaN.
\<close>

type_synonym websocket_data = "candle list list"

definition row_has_nan :: "candle \<Rightarrow> bool" where
  "row_has_nan r = (is_nan (close r) \<or> is_nan (high r) \<or> is_nan (low r))"

definition add_ticker :: "dataframe \<Rightarrow> candle \<Rightarrow> dataframe" where
  "add_ticker hd_rows ticker =
     (if feq (close ticker) (Fin 0) then hd_rows
      else filter (\<lambda>r. \<not> row_has_nan r) (hd_rows @ [ticker]))"

definition update_data :: "ws_analyzer \<Rightarrow> websocket_data \<Rightarrow> error + ws_analyzer" where
  "update_data self websocket_data =
     (case websocket_data of
        [] \<Rightarrow> Inl IndexError
      | tickers # other_events \<Rightarrow>
          Inr (self\<lparr>ws_historical_data := foldl add_ticker (ws_historical_data self) tickers\<rparr>))"

text \<open>
  \<^verbatim>\<open>
  def analyze(self, websocket_data):
      self.update_data(websocket_data)
      strategy_results = self.run_strategies()
      signal = self.calculate_signal(strategy_results)
      if self.check_risk():
          return signal
      else:
          return "No Action"
  \<close>
  The result is the returned string with the updated object, or the exception raised.
\<close>

definition ws_analyze :: "rendering \<Rightarrow> ws_analyzer \<Rightarrow> websocket_data \<Rightarrow> error + string \<times> ws_analyzer" where
  "ws_analyze rd self websocket_data =
     bind_r (update_data self websocket_data) (\<lambda>self'.
     bind_r (run_strategies self') (\<lambda>strategy_results.
       (let signal = calculate_signal rd strategy_results
        in bind_r (ws_check_risk self') (\<lambda>ok.
             if ok then Inr (signal, self') else Inr (''No Action'', self')))))"

section \<open>MarketAnalyzer (app/coinbase_/market_analyser.py)\<close>

text \<open>
  The fields of the object that the analysis reads. The price is the Python float read
  from the product details; the default period is 9.
\<close>

record market_analyzer =
  ma_historical_data :: dataframe
  ma_price :: fl
  ma_portfolio_value :: fl
  ma_risk_percentage :: fl
  ma_loss_percentage :: fl
  ma_period :: nat

text \<open>
  \<^verbatim>\<open>
  def calculate_rsi(self):
      delta = self.historical_data['close'].diff()
      gain = (delta.where(delta > 0, 0)).rolling(window=self.period).mean()
      loss = (-delta.where(delta < 0, 0)).rolling(window=self.period).mean()
      rs = gain / loss
      rsi = 100 - (100 / (1 + rs))
      return rsi

  def calculate_macd(self, short_period=12, long_period=26, signal_period=9):
      short_ema = self.historical_data['close'].ewm(span=short_period, adjust=False).mean()
      long_ema = self.historical_data['close'].ewm(span=long_period, adjust=False).mean()
      macd = short_ema - long_ema
      signal_line = macd.ewm(span=signal_period, adjust=False).mean()
      return macd, signal_line

  def calculate_sma(self):
      return self.historical_data['close'].rolling(window=self.period).mean()

  def calculate_bollinger_bands(self, num_std_dev=2):
      sma = self.calculate_sma()
      rolling_std = self.historical_data['close'].rolling(window=self.period).std()
      upper_band = sma + (rolling_std * num_std_dev)
      lower_band = sma - (rolling_std * num_std_dev)
      return upper_band, lower_band

  def calculate_vtr(self):
      return self.historical_data['close'].rolling(window=self.period).std()
  \<close>
\<close>

definition ma_calculate_rsi :: "market_analyzer \<Rightarrow> series" where
  "ma_calculate_rsi self =
     (let delta = diff (col_close (ma_historical_data self));
          gain = rolling (ma_period self) (ma_period self) agg_mean
                   (where_s delta (gt_c delta (Fin 0)) (Fin 0));
          loss = rolling (ma_period self) (ma_period self) agg_mean
                   (sneg (where_s delta (lt_c delta (Fin 0)) (Fin 0)));
          rs = sdiv gain loss
      in rsi_of_rs rs)"

definition ma_calculate_macd :: "market_analyzer \<Rightarrow> nat \<Rightarrow> nat \<Rightarrow> nat \<Rightarrow> series \<times> series" where
  "ma_calculate_macd self short_period long_period signal_period =
     (let short_ema = ewm_mean short_period (col_close (ma_historical_data self));
          long_ema = ewm_mean long_period (col_close (ma_historical_data self));
          macd = ssub short_ema long_ema;
          signal_line = ewm_mean signal_period macd
      in (macd, signal_line))"

definition ma_calculate_sma :: "market_analyzer \<Rightarrow> series" where
  "ma_calculate_sma self =
     rolling (ma_period self) (ma_period self) agg_mean (col_close (ma_historical_data self))"

definition ma_calculate_bollinger_bands :: "market_analyzer \<Rightarrow> fl \<Rightarrow> series \<times> series" where
  "ma_calculate_bollinger_bands self num_std_dev =
     (let sma = ma_calculate_sma self;
          rolling_std = rolling (ma_period self) (ma_period self) agg_std
                          (col_close (ma_historical_data self));
          upper_band = sadd sma (smul_c num_std_dev rolling_std);
          lower_band = ssub sma (smul_c num_std_dev rolling_std)
      in (upper_band, lower_band))"

definition ma_calculate_vtr :: "market_analyzer \<Rightarrow> series" where
  "ma_calculate_vtr self =
     rolling (ma_period self) (ma_period self) agg_std (col_close (ma_historical_data self))"

text \<open>
  \<^verbatim>\<open>
  def calculate_adx(self):
      high = self.historical_data['high']
      low = self.historical_data['low']
      close = self.historical_data['close']
      tr1 = high - low
      tr2 = abs(high - close.shift(1))
      tr3 = abs(low - close.shift(1))
      tr = pd.concat([tr1, tr2, tr3], axis=1).max(axis=1)
      atr = tr.rolling(window=self.period, min_periods=1).mean()
      atr.fillna(method='bfill', inplace=True)
      plus_dm = high.diff()
      minus_dm = low.diff()
      plus_dm = plus_dm.where((plus_dm > minus_dm) & (plus_dm > 0), 0)
      minus_dm = minus_dm.where((minus_dm > plus_dm) & (minus_dm > 0), 0)
      plus_di = 100 * (plus_dm.rolling(window=self.period, min_periods=1).sum() / atr)
      minus_di = 100 * (minus_dm.rolling(window=self.period, min_periods=1).sum() / atr)
      dx = 100 * (abs(plus_di - minus_di) / (plus_di + minus_di))
      dx.replace([np.inf, -np.inf], np.nan, inplace=True)
      dx.fillna(method='bfill', inplace=True)
      adx = dx.rolling(window=self.period, min_periods=1).mean()
      adx.fillna(method='bfill', inplace=True)
      return adx, plus_di, minus_di
  \<close>
  The second \<open>where\<close> reads \<open>plus_dm\<close> after the first has overwritten it.
\<close>

definition ma_true_range :: "dataframe \<Rightarrow> series" where
  "ma_true_range df =
     (let tr1 = ssub (col_high df) (col_low df);
          tr2 = sabs (ssub (col_high df) (shift 1 (col_close df)));
          tr3 = sabs (ssub (col_low df) (shift 1 (col_close df)))
      in row_max3 tr1 tr2 tr3)"

definition ma_atr :: "nat \<Rightarrow> dataframe \<Rightarrow> series" where
  "ma_atr period df = bfill (rolling period 1 agg_mean (ma_true_range df))"

definition ma_plus_dm :: "dataframe \<Rightarrow> series" where
  "ma_plus_dm df =
     (let plus_dm = diff (col_high df);
          minus_dm = diff (col_low df)
      in where_s plus_dm (and_s (gt_s plus_dm minus_dm) (gt_c plus_dm (Fin 0))) (Fin 0))"

definition ma_minus_dm :: "dataframe \<Rightarrow> series" where
  "ma_minus_dm df =
     (let minus_dm = diff (col_low df);
          plus_dm = ma_plus_dm df
      in where_s minus_dm (and_s (gt_s minus_dm plus_dm) (gt_c minus_dm (Fin 0))) (Fin 0))"

definition ma_plus_di :: "nat \<Rightarrow> dataframe \<Rightarrow> series" where
  "ma_plus_di period df =
     smul_c (Fin 100) (sdiv (rolling period 1 agg_sum (ma_plus_dm df)) (ma_atr period df))"

definition ma_minus_di :: "nat \<Rightarrow> dataframe \<Rightarrow> series" where
  "ma_minus_di period df =
     smul_c (Fin 100) (sdiv (rolling period 1 agg_sum (ma_minus_dm df)) (ma_atr period df))"

definition ma_dx :: "nat \<Rightarrow> dataframe \<Rightarrow> series" where
  "ma_dx period df =
     (let plus_di = ma_plus_di period df;
          minus_di = ma_minus_di period df;
          dx = smul_c (Fin 100) (sdiv (sabs (ssub plus_di minus_di)) (sadd plus_di minus_di))
      in bfill (replace_inf dx))"

definition ma_calculate_adx :: "market_analyzer \<Rightarrow> series \<times> series \<times> series" where
  "ma_calculate_adx self =
     (let period = ma_period self; df = ma_historical_data self;
          adx = bfill (rolling period 1 agg_mean (ma_dx period df))
      in (adx, ma_plus_di period df, ma_minus_di period df))"

text \<open>
  \<^verbatim>\<open>
  def calculate_stochastic_oscillator(self):
      low_min = self.historical_data['low'].rolling(window=self.period).min()
      high_max = self.historical_data['high'].rolling(window=self.period).max()
      close_prices = self.historical_data['close']
      return 100 * (close_prices - low_min) / (high_max - low_min)
  \<close>
\<close>

definition ma_calculate_stochastic_oscillator :: "market_analyzer \<Rightarrow> series" where
  "ma_calculate_stochastic_oscillator self =
     stochastic_series (ma_period self) (ma_historical_data self)"

text \<open>
  \<^verbatim>\<open>
  def evaluate_signals(self, rsi, macd, signal_line, sma, upper_band, lower_band,
                       adx, vtr, stx):
      rsi = rsi.dropna()
      ... (each of the nine series)
      stx = stx.dropna()
      if len(rsi) > 0:
          rsi_signal = "Oversold" if rsi.iloc[-1] < 30 else
                       "Overbought" if rsi.iloc[-1] > 70 else "Neutral"
      else:
          rsi_signal = "No Data Available"
      if len(macd) > 0 and len(signal_line) > 0:
          macd_signal = "Bullish" if macd.iloc[-1] > signal_line.iloc[-1] else "Bearish"
      else:
          macd_signal = "No Data Available"
      if len(sma) > 1:
          sma_signal = "Bullish" if sma.iloc[-1] > sma.iloc[-2] else "Bearish"
      else:
          sma_signal = "No Data Available"
      if len(upper_band) > 0 and len(lower_band) > 0:
          bollinger_signal = "Buy" if self.price < lower_band.iloc[-1] else
                             "Sell" if self.price > upper_band.iloc[-1] else "Neutral"
      else:
          bollinger_signal = "No Data Available"
      if len(adx) > 0:
          adx_signal = "Strong Trend" if adx.iloc[-1] > 25 else "Weak Trend"
      else:
          adx_signal = "No Data Available"
      if len(vtr) > 0:
          vtr_signal = "High Volatility" if vtr.iloc[-1] > 1 else "Low Volatility"
      else:
          vtr_signal = "No Data Available"
      stochastic_signal = "Overbought" if stx.iloc[-1] > 80 else
                          "Oversold" if stx.iloc[-1] < 20 else "Neutral"
      return rsi_signal, macd_signal, sma_signal, bollinger_signal, adx_signal, vtr_signal
  \<close>
  The returned tuple is the list of its six components. The stochastic series is indexed
  without a check of its length.
\<close>

definition rsi_signal_of :: "series \<Rightarrow> string" where
  "rsi_signal_of rsi =
     (if length rsi > 0
      then (if flt (last rsi) (Fin 30) then ''Oversold''
            else if fgt (last rsi) (Fin 70) then ''Overbought'' else ''Neutral'')
      else ''No Data Available'')"

definition macd_signal_of :: "series \<Rightarrow> series \<Rightarrow> string" where
  "macd_signal_of macd signal_line =
     (if length macd > 0 \<and> length signal_line > 0
      then (if fgt (last macd) (last signal_line) then ''Bullish'' else ''Bearish'')
      else ''No Data Available'')"

definition sma_signal_of :: "series \<Rightarrow> string" where
  "sma_signal_of sma =
     (if length sma > 1
      then (if fgt (last sma) (sma ! (length sma - 2)) then ''Bullish'' else ''Bearish'')
      else ''No Data Available'')"

definition bollinger_signal_of :: "fl \<Rightarrow> series \<Rightarrow> series \<Rightarrow> string" where
  "bollinger_signal_of price upper_band lower_band =
     (if length upper_band > 0 \<and> length lower_band > 0
      then (if flt price (last lower_band) then ''Buy''
            else if fgt price (last upper_band) then ''Sell'' else ''Neutral'')
      else ''No Data Available'')"

definition adx_signal_of :: "series \<Rightarrow> string" where
  "adx_signal_of adx =
     (if length adx > 0
      then (if fgt (last adx) (Fin 25) then ''Strong Trend'' else ''Weak Trend'')
      else ''No Data Available'')"

definition vtr_signal_of :: "series \<Rightarrow> string" where
  "vtr_signal_of vtr =
     (if length vtr > 0
      then (if fgt (last vtr) (Fin 1) then ''High Volatility'' else ''Low Volatility'')
      else ''No Data Available'')"

definition evaluate_signals ::
  "market_analyzer \<Rightarrow> series \<Rightarrow> series \<Rightarrow> series \<Rightarrow> series \<Rightarrow> series \<Rightarrow> series \<Rightarrow> series
     \<Rightarrow> series \<Rightarrow> series \<Rightarrow> error + string list" where
  "evaluate_signals self rsi0 macd0 signal_line0 sma0 upper_band0 lower_band0 adx0 vtr0 stx0 =
     (let rsi = dropna rsi0; macd = dropna macd0; signal_line = dropna signal_line0;
          sma = dropna sma0; upper_band = dropna upper_band0; lower_band = dropna lower_band0;
          adx = dropna adx0; vtr = dropna vtr0; stx = dropna stx0;
          rsi_signal = rsi_signal_of rsi;
          macd_signal = macd_signal_of macd signal_line;
          sma_signal = sma_signal_of sma;
          bollinger_signal = bollinger_signal_of (ma_price self) upper_band lower_band;
          adx_signal = adx_signal_of adx;
          vtr_signal = vtr_signal_of vtr
      in bind_r (iloc_last stx) (\<lambda>k.
           (let stochastic_signal =
                  (if fgt k (Fin 80) then ''Overbought''
                   else if flt k (Fin 20) then ''Oversold'' else ''Neutral'')
            in Inr [rsi_signal, macd_signal, sma_signal, bollinger_signal,
                    adx_signal, vtr_signal])))"

text \<open>
  \<^verbatim>\<open>
  def calculate_position_size(self):
      risk_amount = self.portfolio_value * self.risk_percentage
      position_size = risk_amount / self.price
      return position_size

  def calculate_stop_loss(self):
      stop_loss = self.price * (1 - self.loss_percentage)
      return stop_loss

  def make_decision(self, rsi_signal, macd_signal, sma_signal, bollinger_signal,
                    adx_signal, vtr_signal):
      if rsi_signal == "Oversold" and macd_signal == "Bullish"
           and sma_signal == "Bullish" and bollinger_signal == "Buy":
          decision = "Buy"
      elif rsi_signal == "Overbought" and macd_signal == "Bearish"
           and sma_signal == "Bearish" and bollinger_signal == "Sell":
          decision = "Sell"
      else:
          decision = "Hold"
      return decision
  \<close>
  A division of Python floats by zero raises. These two computations come after the
  unpacking in \<open>analyze\<close>; they are written with the arithmetic of the series.
\<close>

definition ma_calculate_position_size :: "market_analyzer \<Rightarrow> error + fl" where
  "ma_calculate_position_size self =
     (let risk_amount = fmul (ma_portfolio_value self) (ma_risk_percentage self)
      in if is_zero (ma_price self) then Inl ZeroDivisionError
         else Inr (fdiv risk_amount (ma_price self)))"

definition ma_calculate_stop_loss :: "market_analyzer \<Rightarrow> fl" where
  "ma_calculate_stop_loss self = fmul (ma_price self) (fsub (Fin 1) (ma_loss_percentage self))"

definition make_decision :: "string \<Rightarrow> string \<Rightarrow> string \<Rightarrow> string \<Rightarrow> string \<Rightarrow> string \<Rightarrow> string" where
  "make_decision rsi_signal macd_signal sma_signal bollinger_signal adx_signal vtr_signal =
     (if rsi_signal = ''Oversold'' \<and> macd_signal = ''Bullish'' \<and> sma_signal = ''Bullish''
           \<and> bollinger_signal = ''Buy'' then ''Buy''
      else if rsi_signal = ''Overbought'' \<and> macd_signal = ''Bearish''
           \<and> sma_signal = ''Bearish'' \<and> bollinger_signal = ''Sell'' then ''Sell''
      else ''Hold'')"

text \<open>
  \<^verbatim>\<open>
  def analyze(self):
      rsi = self.calculate_rsi()
      macd, signal_line = self.calculate_macd()
      sma = self.calculate_sma()
      upper_band, lower_band = self.calculate_bollinger_bands()
      adx, plus_di, minus_di = self.calculate_adx()
      vtr = self.calculate_vtr()
      stx = self.calculate_stochastic_oscillator()
      rsi_signal, macd_signal, sma_signal, bollinger_signal, adx_signal, vtr_signal, \
          stochastic_signal = self.evaluate_signals(
              rsi, macd, signal_line, sma, upper_band, lower_band, adx, vtr, stx)
      position_size = self.calculate_position_size()
      stop_loss = self.calculate_stop_loss()
      decision = self.make_decision(rsi_signal, macd_signal, sma_signal,
                                    bollinger_signal, adx_signal, vtr_signal)
      self.plot_indicators(...)
      return {'decision': decision, 'position_size': position_size,
              'stop_loss': stop_loss, 'rsi_signal': rsi_signal, ...}
  \<close>
  Unpacking a tuple into seven names raises \<open>ValueError\<close> unless it has seven
  components. The plot has no part in the result.
\<close>

record analysis =
  res_decision :: string
  res_position_size :: fl
  res_stop_loss :: fl
  res_signals :: "string list"

definition unpack7 :: "'a list \<Rightarrow> error + 'a \<times> 'a \<times> 'a \<times> 'a \<times> 'a \<times> 'a \<times> 'a" where
  "unpack7 xs =
     (case xs of
        [a, b, c, d, e, f, g] \<Rightarrow> Inr (a, b, c, d, e, f, g)
      | _ \<Rightarrow> Inl ValueError)"

definition ma_analyze :: "market_analyzer \<Rightarrow> error + analysis" where
  "ma_analyze self =
     (let rsi = ma_calculate_rsi self;
          (macd, signal_line) = ma_calculate_macd self 12 26 9;
          sma = ma_calculate_sma self;
          (upper_band, lower_band) = ma_calculate_bollinger_bands self (Fin 2);
          (adx, plus_di, minus_di) = ma_calculate_adx self;
          vtr = ma_calculate_vtr self;
          stx = ma_calculate_stochastic_oscillator self
      in bind_r (evaluate_signals self rsi macd signal_line sma upper_band lower_band
                   adx vtr stx) (\<lambda>signals.
         bind_r (unpack7 signals)
           (\<lambda>(rsi_signal, macd_signal, sma_signal, bollinger_signal, adx_signal,
               vtr_signal, stochastic_signal).
         bind_r (ma_calculate_position_size self) (\<lambda>position_size.
           (let stop_loss = ma_calculate_stop_loss self;
                decision = make_decision rsi_signal macd_signal sma_signal
                             bollinger_signal adx_signal vtr_signal
            in Inr \<lparr>res_decision = decision, res_position_size = position_size,
                     res_stop_loss = stop_loss,
                     res_signals = [rsi_signal, macd_signal, sma_signal, bollinger_signal,
                                    adx_signal, vtr_signal]\<rparr>)))))"

section \<open>The ADX algorithm as the specification words it\<close>

text \<open>
  The specification: true range = max(high - low, |high - prev_close|, |low - prev_close|);
  average true range = rolling mean of the true range; \<open>+DM = high_t - high_{t-1}\<close> kept
  only when positive and greater than the corresponding \<open>-DM\<close>, else 0 (symmetric for
  \<open>-DM\<close>); \<open>+DI, -DI = 100 * rolling_sum(DM, period) / ATR\<close>;
  \<open>DX = 100 * |+DI - -DI| / (+DI + -DI)\<close>; \<open>ADX = rolling_mean(DX, period)\<close>.
  These definitions follow the words, not the code. The first row has no previous row: its
  true range is \<open>high - low\<close> and its directional movements are 0. A rolling value over
  \<open>period\<close> rows exists from row \<open>period - 1\<close> on.

  The words do not say which difference of the lows \<open>-DM\<close> is taken from; "symmetric"
  can be read in two ways, and the algorithm is defined for both. \<open>RiseOfLow\<close> mirrors
  \<open>+DM\<close> on the column of lows: the movement is \<open>low_t - low_{t-1}\<close>.
  \<open>FallOfLow\<close> mirrors the direction as well: the movement is the down move
  \<open>low_{t-1} - low_t\<close>, as in the textbook ADX. In both readings a movement is kept
  when it is positive and greater than the other movement of the same row.
\<close>

datatype low_move = RiseOfLow | FallOfLow

fun spec_low_move :: "low_move \<Rightarrow> dataframe \<Rightarrow> nat \<Rightarrow> fl" where
  "spec_low_move RiseOfLow df i = fsub (low (df ! i)) (low (df ! (i - 1)))"
| "spec_low_move FallOfLow df i = fsub (low (df ! (i - 1))) (low (df ! i))"

definition spec_true_range :: "dataframe \<Rightarrow> series" where
  "spec_true_range df =
     map (\<lambda>i. if i = 0 then fsub (high (df ! i)) (low (df ! i))
               else fmax2 (fmax2 (fsub (high (df ! i)) (low (df ! i)))
                                 (fabs (fsub (high (df ! i)) (close (df ! (i - 1))))))
                          (fabs (fsub (low (df ! i)) (close (df ! (i - 1))))))
         [0..<length df]"

definition spec_atr :: "nat \<Rightarrow> dataframe \<Rightarrow> series" where
  "spec_atr period df = rolling period period agg_mean (spec_true_range df)"

definition spec_plus_dm :: "low_move \<Rightarrow> dataframe \<Rightarrow> series" where
  "spec_plus_dm r df =
     map (\<lambda>i. if i = 0 then Fin 0
               else (let up = fsub (high (df ! i)) (high (df ! (i - 1)));
                         dn = spec_low_move r df i
                     in if fgt up (Fin 0) \<and> fgt up dn then up else Fin 0))
         [0..<length df]"

definition spec_minus_dm :: "low_move \<Rightarrow> dataframe \<Rightarrow> series" where
  "spec_minus_dm r df =
     map (\<lambda>i. if i = 0 then Fin 0
               else (let up = fsub (high (df ! i)) (high (df ! (i - 1)));
                         dn = spec_low_move r df i
                     in if fgt dn (Fin 0) \<and> fgt dn up then dn else Fin 0))
         [0..<length df]"

definition spec_di :: "nat \<Rightarrow> series \<Rightarrow> series \<Rightarrow> series" where
  "spec_di period dm atr =
     map2 (\<lambda>s a. fdiv (fmul (Fin 100) s) a) (rolling period period agg_sum dm) atr"

definition spec_plus_di :: "low_move \<Rightarrow> nat \<Rightarrow> dataframe \<Rightarrow> series" where
  "spec_plus_di r period df = spec_di period (spec_plus_dm r df) (spec_atr period df)"

definition spec_minus_di :: "low_move \<Rightarrow> nat \<Rightarrow> dataframe \<Rightarrow> series" where
  "spec_minus_di r period df = spec_di period (spec_minus_dm r df) (spec_atr period df)"

definition spec_dx :: "low_move \<Rightarrow> nat \<Rightarrow> dataframe \<Rightarrow> series" where
  "spec_dx r period df =
     map2 (\<lambda>pdi mdi. fdiv (fmul (Fin 100) (fabs (fsub pdi mdi))) (fadd pdi mdi))
          (spec_plus_di r period df) (spec_minus_di r period df)"



text \<open>An observation whose three prices are finite numbers.\<close>

definition finite_candle :: "candle \<Rightarrow> bool" where
  "finite_candle r = (is_fin (close r) \<and> is_fin (high r) \<and> is_fin (low r))"


section \<open>Example data\<close>

text \<open>Concrete inputs on which the theorems below are instantiated.\<close>

definition example_rendering :: rendering where
  "example_rendering =
     \<lparr>repr_val = (\<lambda>v. ''1.0''), series_rows = (\<lambda>xs. ''0    1.0''), dtype_name = ''float64''\<rparr>"

definition example_candle :: candle where
  "example_candle = \<lparr>close = Fin 100, high = Fin 101, low = Fin 99\<rparr>"

definition example_ws :: ws_analyzer where
  "example_ws = \<lparr>ws_risk_threshold = 2, ws_balance = 10000, ws_period = 1,
                  ws_price = Some 100, ws_historical_data = [example_candle]\<rparr>"

definition example_ma :: market_analyzer where
  "example_ma = \<lparr>ma_historical_data = [example_candle], ma_price = Fin 100,
                  ma_portfolio_value = Fin 10000, ma_risk_percentage = Fin (2 / 100),
                  ma_loss_percentage = Fin (5 / 100), ma_period = 1\<rparr>"

definition rising_candles :: dataframe where
  "rising_candles = [\<lparr>close = Fin 1, high = Fin 2, low = Fin 0\<rparr>,
                     \<lparr>close = Fin 2, high = Fin 3, low = Fin 1\<rparr>,
                     \<lparr>close = Fin 3, high = Fin 4, low = Fin 2\<rparr>]"

definition swing_ma :: market_analyzer where
  "swing_ma = \<lparr>ma_historical_data =
                  [\<lparr>close = Fin 10, high = Fin 11, low = Fin 9\<rparr>,
                   \<lparr>close = Fin 50, high = Fin 51, low = Fin 49\<rparr>,
                   \<lparr>close = Fin 30, high = Fin 31, low = Fin 29\<rparr>],
                ma_price = Fin 30, ma_portfolio_value = Fin 10000,
                ma_risk_percentage = Fin (2 / 100), ma_loss_percentage = Fin (5 / 100),
                ma_period = 2\<rparr>"

definition short_ws :: ws_analyzer where
  "short_ws = \<lparr>ws_risk_threshold = 2, ws_balance = 10000, ws_period = 14,
                ws_price = Some 100, ws_historical_data = [example_candle]\<rparr>"

definition two_candles :: dataframe where
  "two_candles = [\<lparr>close = Fin 100, high = Fin 101, low = Fin 99\<rparr>,
                  \<lparr>close = Fin 110, high = Fin 111, low = Fin 109\<rparr>]"




definition tie_candles :: dataframe where
  "tie_candles = [\<lparr>close = Fin 9, high = Fin 10, low = Fin 8\<rparr>,
                  \<lparr>close = Fin 10, high = Fin 11, low = Fin 9\<rparr>]"

definition risky_ws :: ws_analyzer where
  "risky_ws = \<lparr>ws_risk_threshold = 2, ws_balance = 10000, ws_period = 1,
                ws_price = Some 11, ws_historical_data = [example_candle]\<rparr>"

section \<open>Properties\<close>

text \<open>The equations that evaluate the arithmetic and the series operations on concrete data.\<close>

lemmas fl_eval = fadd_def fsub_def fmul_def fdiv_def flt_def fgt_def feq_def fle_def is_zero_def
  mk_zero_def mk_inf_def mk_fin_def fmax2_def fmin2_def

lemmas series_eval = col_close_def col_high_def col_low_def iloc_last_def iloc_last2_def bind_r_def
  sadd_def ssub_def sdiv_def sneg_def sabs_def smul_c_def sdiv_c_def cadd_s_def csub_s_def cdiv_s_def
  gt_c_def lt_c_def gt_s_def and_s_def where_s_def diff_def shift_def shift_back_def dropna_def
  observed_def
  replace_inf_def window_def rolling_def fsum_def agg_sum_def agg_mean_def agg_std_def agg_max_def
  agg_min_def row_max3_def ewm_mean_def rsi_of_rs_def Let_def

subsection \<open>Finite values and rolling windows\<close>

lemma is_fin_cases: "is_fin a \<longleftrightarrow> a = NZero \<or> (\<exists>x. a = Fin x)"
  by (cases a) auto

lemma is_fin_not_special [simp]:
  "is_fin a \<Longrightarrow> \<not> is_nan a" "is_fin a \<Longrightarrow> \<not> is_inf a"
  by (cases a; simp)+

lemma fadd_fin: "is_fin a \<Longrightarrow> is_fin b \<Longrightarrow> is_fin (fadd a b) \<and> fval (fadd a b) = fval a + fval b"
  by (cases a; cases b; simp add: fadd_def)

lemma fneg_fin: "is_fin a \<Longrightarrow> is_fin (fneg a) \<and> fval (fneg a) = - fval a"
  by (cases a; simp)

lemma fsub_fin: "is_fin a \<Longrightarrow> is_fin b \<Longrightarrow> is_fin (fsub a b) \<and> fval (fsub a b) = fval a - fval b"
  by (simp add: fsub_def fadd_fin fneg_fin)


lemma mk_fin_fin [simp]: "is_fin (mk_fin s x)" "fval (mk_fin s x) = x"
  by (simp_all add: mk_fin_def mk_zero_def)

lemma fmul_fin: "is_fin a \<Longrightarrow> is_fin b \<Longrightarrow> is_fin (fmul a b) \<and> fval (fmul a b) = fval a * fval b"
  by (simp add: fmul_def)

lemma fdiv_fin:
  "is_fin a \<Longrightarrow> is_fin b \<Longrightarrow> fval b \<noteq> 0 \<Longrightarrow> is_fin (fdiv a b) \<and> fval (fdiv a b) = fval a / fval b"
  by (simp add: fdiv_def is_zero_def)

lemma foldl_fadd_fin:
  "is_fin a \<Longrightarrow> list_all is_fin xs \<Longrightarrow>
     is_fin (foldl fadd a xs) \<and> fval (foldl fadd a xs) = fval a + sum_list (map fval xs)"
  by (induction xs arbitrary: a) (simp_all add: fadd_fin)

lemma fsum_fin: "list_all is_fin xs \<Longrightarrow> is_fin (fsum xs) \<and> fval (fsum xs) = sum_list (map fval xs)"
  using foldl_fadd_fin [of "Fin 0" xs] by (simp add: fsum_def)

lemma agg_mean_fin:
  "list_all is_fin xs \<Longrightarrow> xs \<noteq> [] \<Longrightarrow>
     is_fin (agg_mean xs) \<and> fval (agg_mean xs) = sum_list (map fval xs) / real (length xs)"
  using fsum_fin [of xs] fdiv_fin [of "fsum xs" "Fin (real (length xs))"]
  by (simp add: agg_mean_def)

lemma dropna_fin: "list_all is_fin xs \<Longrightarrow> dropna xs = xs"
  by (induction xs) (simp_all add: dropna_def)

lemma observed_fin: "list_all is_fin xs \<Longrightarrow> observed xs = xs"
  by (induction xs) (simp_all add: observed_def)

lemma observed_all_fin: "list_all is_fin (observed xs)"
  by (simp add: observed_def list_all_iff)

lemma length_window: "i < length xs \<Longrightarrow> length (window w i xs) = min w (Suc i)"
  by (simp add: window_def)

lemma window_full: "i < length xs \<Longrightarrow> w \<le> Suc i \<Longrightarrow> length (window w i xs) = w"
  by (simp add: window_def)

lemma set_window: "set (window w i xs) \<subseteq> set xs"
  unfolding window_def by (meson set_drop_subset set_take_subset subset_trans)

lemma list_all_window: "list_all P xs \<Longrightarrow> list_all P (window w i xs)"
  using set_window [of w i xs] by (auto simp: list_all_iff)

lemma window_nth:
  "i < length xs \<Longrightarrow> w \<le> Suc i \<Longrightarrow> j < w \<Longrightarrow> window w i xs ! j = xs ! (Suc i - w + j)"
  by (simp add: window_def)

lemma length_rolling [simp]: "length (rolling w m agg xs) = length xs"
  by (simp add: rolling_def)

lemma rolling_eq_Nil [simp]: "rolling w m agg xs = [] \<longleftrightarrow> xs = []"
  by (simp add: rolling_def)

lemma rolling_nth:
  "i < length xs \<Longrightarrow>
     rolling w m agg xs ! i =
       (let obs = observed (window w i xs)
        in if obs \<noteq> [] \<and> m \<le> length obs then agg obs else NaN)"
  by (simp add: rolling_def)

lemma rolling_nth_short: "i < length xs \<Longrightarrow> Suc i < m \<Longrightarrow> m \<le> w \<Longrightarrow> rolling w m agg xs ! i = NaN"
proof -
  assume a: "i < length xs" "Suc i < m" "m \<le> w"
  have "length (observed (window w i xs)) \<le> length (window w i xs)"
    by (simp add: observed_def)
  also have "\<dots> = min w (Suc i)" using a by (simp add: length_window)
  finally show ?thesis using a by (simp add: rolling_nth Let_def)
qed

lemma rolling_nth_fin:
  "i < length xs \<Longrightarrow> list_all is_fin (window w i xs) \<Longrightarrow> w \<le> Suc i \<Longrightarrow> 0 < w \<Longrightarrow> m \<le> w \<Longrightarrow>
     rolling w m agg xs ! i = agg (window w i xs)"
proof -
  assume a: "i < length xs" "list_all is_fin (window w i xs)" "w \<le> Suc i" "0 < w" "m \<le> w"
  have l: "length (window w i xs) = w" using a by (simp add: window_full)
  then have "window w i xs \<noteq> []" using a by auto
  then show ?thesis using a l by (simp add: rolling_nth observed_fin Let_def)
qed

lemma last_nth: "xs \<noteq> [] \<Longrightarrow> last xs = xs ! (length xs - 1)"
  by (rule last_conv_nth)

lemma length_diff [simp]: "length (diff xs) = length xs"
  by (simp add: diff_def)

lemma diff_nth: "i < length xs \<Longrightarrow> diff xs ! i = (if i = 0 then NaN else fsub (xs ! i) (xs ! (i - 1)))"
  by (simp add: diff_def)

lemma length_shift [simp]: "length (shift k xs) = length xs"
  by (simp add: shift_def)

lemma shift_nth: "i < length xs \<Longrightarrow> shift k xs ! i = (if i < k then NaN else xs ! (i - k))"
  by (simp add: shift_def)

lemma length_bfill [simp]: "length (bfill xs) = length xs"
  by (induction xs) (simp_all add: Let_def)




subsection \<open>Rounding to binary64\<close>

lemma ulp_power:
  assumes "k \<le> 52"
  shows "(2::real) powr (of_int k - 52) = 1 / 2 ^ nat (52 - k)"
proof -
  have a: "of_int k - 52 = - real (nat (52 - k))" using assms by simp
  have "(2::real) powr (- real (nat (52 - k))) = 1 / (2 powr real (nat (52 - k)))"
    by (rule powr_minus_divide)
  also have "\<dots> = 1 / 2 ^ nat (52 - k)"
    by (subst powr_realpow) simp_all
  finally show ?thesis unfolding a .
qed

lemma f64_at_exponent:
  assumes "2 powr (of_int k) \<le> \<bar>x\<bar>" "\<bar>x\<bar> < 2 powr (of_int k + 1)" "k \<le> 52"
  shows "f64 x = of_int (round_half_even (x * 2 ^ nat (52 - k))) / 2 ^ nat (52 - k)"
proof -
  have "0 < (2::real) powr (of_int k)" by simp
  then have pos: "0 < \<bar>x\<bar>" using assms(1) by linarith
  then have e: "\<lfloor>log 2 \<bar>x\<bar>\<rfloor> = k"
    using assms(1,2) by (simp add: floor_log_eq_powr_iff)
  have nz: "x \<noteq> 0" using pos by auto
  have "f64 x = of_int (round_half_even (x / 2 powr (of_int k - 52))) * 2 powr (of_int k - 52)"
    using nz e by (simp only: f64_def Let_def if_False)
  then show ?thesis
    by (simp only: ulp_power [OF assms(3)] divide_divide_eq_right mult_1 times_divide_eq_right mult_1_right div_by_1)
qed

lemma f64_1: "f64 1 = 1"
  using f64_at_exponent [of 0 1] by (simp add: round_half_even_def)

lemma f64_2: "f64 2 = 2"
  using f64_at_exponent [of 1 2] by (simp add: round_half_even_def)

lemma f64_4: "f64 4 = 4"
  using f64_at_exponent [of 2 4] by (simp add: round_half_even_def)

lemma f64_200: "f64 200 = 200"
  using f64_at_exponent [of 7 200] by (simp add: round_half_even_def)

lemma f64_20000: "f64 20000 = 20000"
  using f64_at_exponent [of 14 20000] by (simp add: round_half_even_def)

text \<open>\<open>200 / 11\<close> is \<open>18.181818181818183\<close> in binary64, and its product with 11 is
  \<open>200.00000000000003\<close>, one unit in the last place above 200.\<close>

lemma f64_200_div_11: "f64 (200 / 11) = 5117726849284655 / 281474976710656"
  using f64_at_exponent [of 4 "200 / 11"] by (simp add: round_half_even_def)

lemma f64_times_11:
  "f64 (5117726849284655 / 281474976710656 * 11) = 7036874417766401 / 35184372088832"
  "f64 (56294995342131205 / 281474976710656) = 7036874417766401 / 35184372088832"
  using f64_at_exponent [of 7 "5117726849284655 / 281474976710656 * 11"]
  by (simp_all add: round_half_even_def)

subsection \<open>The risk sizer\<close>

text \<open>
  C3. \<open>check_risk\<close> answers with the error state \<open>("Invalid Input", None)\<close> exactly
  when the balance or the price is not positive; otherwise the position size is
  \<open>(balance * risk_pct / 100) / price\<close>, computed in binary64.
  \<open>check_risk(10000, 100, 2)\<close> gives the size 2, and \<open>check_risk(0, 100, 2)\<close> and
  \<open>check_risk(100, 0, 2)\<close> give the error state.
\<close>

theorem check_risk_invalid_iff:
  "(check_risk balance price risk_pct = (''Invalid Input'', None)
      \<longleftrightarrow> balance \<le> 0 \<or> price \<le> 0)
   \<and> (\<not> (balance \<le> 0 \<or> price \<le> 0) \<longrightarrow>
        check_risk balance price risk_pct =
          (''Position Size'', Some (f64 (f64 (f64 (balance * risk_pct) / 100) / price))))
   \<and> check_risk 10000 100 2 = (''Position Size'', Some 2)
   \<and> check_risk 0 100 2 = (''Invalid Input'', None)
   \<and> check_risk 100 0 2 = (''Invalid Input'', None)"
  by (simp add: check_risk_def Let_def f64_20000 f64_200 f64_2)

theorem check_risk_invalid_iff_witness:
  "\<not> ((10000::real) \<le> 0 \<or> (50::real) \<le> 0)
   \<and> check_risk 10000 50 2 = (''Position Size'', Some 4)
   \<and> check_risk 10000 50 2 \<noteq> (''Invalid Input'', None)"
  using check_risk_invalid_iff [of 10000 50 2] by (simp add: f64_20000 f64_200 f64_4)

subsection \<open>The consensus vote\<close>

text \<open>On a list of plain signal strings the counts are the numbers of \<open>"BUY"\<close> and of
  \<open>"SELL"\<close>; for the agent they are the numbers of items whose first component is one.\<close>

lemma count_strings:
  "buy_count rd (map RStr sigs) = count_list sigs ''BUY''"
  "sell_count rd (map RStr sigs) = count_list sigs ''SELL''"
  by (induction sigs) (simp_all add: buy_count_def sell_count_def py_str_def)

lemma count_items:
  "buy_signals items = count_list (map (\<lambda>(key, val). fst val) items) ''BUY''"
  "sell_signals items = count_list (map (\<lambda>(key, val). fst val) items) ''SELL''"
  by (induction items) (auto simp: buy_signals_def sell_signals_def)

text \<open>
  C1. The vote returns Buy exactly when the number of BUY signals reaches the buy
  threshold, Sell exactly when the number of SELL signals reaches the sell threshold and
  the buy condition fails, and the hold answer otherwise. The thresholds are the constants
  of each call site: 5 and 4 in \<open>WebSocketAnalyzer.calculate_signal\<close> (hold is
  \<open>"NEUTRAL"\<close>), 3 and 3 in \<open>AnalyzerAgent.analyze\<close> (hold is \<open>"HOLD"\<close>). A count
  equal to the threshold triggers, a count one below never does.
\<close>

theorem consensus_vote_thresholds:
  "(calculate_signal rd rs = ''BUY'' \<longleftrightarrow> buy_count rd rs \<ge> 5)
   \<and> (calculate_signal rd rs = ''SELL'' \<longleftrightarrow> sell_count rd rs \<ge> 4 \<and> \<not> buy_count rd rs \<ge> 5)
   \<and> (calculate_signal rd rs = ''NEUTRAL'' \<longleftrightarrow> \<not> sell_count rd rs \<ge> 4 \<and> \<not> buy_count rd rs \<ge> 5)
   \<and> (analyzer_signal items = ''BUY'' \<longleftrightarrow> buy_signals items \<ge> 3)
   \<and> (analyzer_signal items = ''SELL'' \<longleftrightarrow> sell_signals items \<ge> 3 \<and> \<not> buy_signals items \<ge> 3)
   \<and> (analyzer_signal items = ''HOLD'' \<longleftrightarrow> \<not> sell_signals items \<ge> 3 \<and> \<not> buy_signals items \<ge> 3)
   \<and> (buy_count rd rs = 5 \<longrightarrow> calculate_signal rd rs = ''BUY'')
   \<and> (buy_count rd rs = 5 - 1 \<longrightarrow> calculate_signal rd rs \<noteq> ''BUY'')
   \<and> (sell_count rd rs = 4 \<and> buy_count rd rs < 5 \<longrightarrow> calculate_signal rd rs = ''SELL'')
   \<and> (sell_count rd rs = 4 - 1 \<longrightarrow> calculate_signal rd rs \<noteq> ''SELL'')
   \<and> (buy_signals items = 3 \<longrightarrow> analyzer_signal items = ''BUY'')
   \<and> (buy_signals items = 3 - 1 \<longrightarrow> analyzer_signal items \<noteq> ''BUY'')
   \<and> (sell_signals items = 3 \<and> buy_signals items < 3 \<longrightarrow> analyzer_signal items = ''SELL'')
   \<and> (sell_signals items = 3 - 1 \<longrightarrow> analyzer_signal items \<noteq> ''SELL'')
   \<and> buy_count rd (map RStr sigs) = count_list sigs ''BUY''
   \<and> sell_count rd (map RStr sigs) = count_list sigs ''SELL''
   \<and> buy_signals items = count_list (map (\<lambda>(key, val). fst val) items) ''BUY''
   \<and> sell_signals items = count_list (map (\<lambda>(key, val). fst val) items) ''SELL''"
  using count_items [of items]
  by (simp add: calculate_signal_def analyzer_signal_def count_strings)

theorem consensus_vote_thresholds_witness:
  "buy_count example_rendering
     [RStr ''BUY'', RStr ''BUY'', RStr ''BUY'', RStr ''BUY'', RStr ''BUY'', RStr ''SELL''] = 5
   \<and> calculate_signal example_rendering
     [RStr ''BUY'', RStr ''BUY'', RStr ''BUY'', RStr ''BUY'', RStr ''BUY'', RStr ''SELL''] = ''BUY''
   \<and> buy_signals [(''RSI'', ''BUY'', PNone), (''MACD'', ''BUY'', PNone), (''SMA'', ''BUY'', PNone),
                   (''VTR (Volatility)'', ''SELL'', PNone)] = 3
   \<and> analyzer_signal [(''RSI'', ''BUY'', PNone), (''MACD'', ''BUY'', PNone), (''SMA'', ''BUY'', PNone),
                       (''VTR (Volatility)'', ''SELL'', PNone)] = ''BUY''"
  using consensus_vote_thresholds
    [of example_rendering
        "[RStr ''BUY'', RStr ''BUY'', RStr ''BUY'', RStr ''BUY'', RStr ''BUY'', RStr ''SELL'']"
        "[(''RSI'', ''BUY'', PNone), (''MACD'', ''BUY'', PNone), (''SMA'', ''BUY'', PNone),
          (''VTR (Volatility)'', ''SELL'', PNone)]"]
  by (simp add: buy_count_def buy_signals_def py_str_def)

subsection \<open>MarketAnalyzer.analyze never returns\<close>

lemma evaluate_signals_cases:
  "evaluate_signals self a b c d e f g h stx =
     (if dropna stx = [] then Inl IndexError
      else Inr [rsi_signal_of (dropna a), macd_signal_of (dropna b) (dropna c),
                sma_signal_of (dropna d),
                bollinger_signal_of (ma_price self) (dropna e) (dropna f),
                adx_signal_of (dropna g), vtr_signal_of (dropna h)])"
  by (simp add: evaluate_signals_def Let_def bind_r_def iloc_last_def)

lemma unpack7_six: "unpack7 [s1, s2, s3, s4, s5, s6] = Inl ValueError"
  by (simp add: unpack7_def)

lemma ma_analyze_raises:
  "ma_analyze self =
     (if dropna (ma_calculate_stochastic_oscillator self) = [] then Inl IndexError
      else Inl ValueError)"
proof -
  obtain macd signal_line where m: "ma_calculate_macd self 12 26 9 = (macd, signal_line)"
    by (cases "ma_calculate_macd self 12 26 9")
  obtain ub lb where b: "ma_calculate_bollinger_bands self (Fin 2) = (ub, lb)"
    by (cases "ma_calculate_bollinger_bands self (Fin 2)")
  obtain adx pdi mdi where a: "ma_calculate_adx self = (adx, pdi, mdi)"
    by (cases "ma_calculate_adx self")
  show ?thesis
    by (simp add: ma_analyze_def m b a evaluate_signals_cases bind_r_def unpack7_six)
qed

text \<open>
  C10. \<open>MarketAnalyzer.analyze\<close> raises on every input and never returns a decision:
  \<open>evaluate_signals\<close> raises \<open>IndexError\<close> when the stochastic series has no value
  that is not NaN, and otherwise returns six signals, which \<open>analyze\<close> unpacks into
  seven names (\<open>ValueError\<close>).
\<close>

theorem market_analyze_always_raises:
  "ma_analyze self =
     (if dropna (ma_calculate_stochastic_oscillator self) = [] then Inl IndexError
      else Inl ValueError)
   \<and> (\<forall>r. ma_analyze self \<noteq> Inr r)
   \<and> (evaluate_signals self a b c d e f g h stx = Inr signals \<longrightarrow> length signals = 6)"
  by (auto simp: ma_analyze_raises evaluate_signals_cases split: if_splits)

theorem market_analyze_always_raises_witness:
  "evaluate_signals example_ma [NaN] [Fin 0] [Fin 0] [Fin 100] [NaN] [NaN] [NaN] [NaN] [Fin 50]
     = Inr [''No Data Available'', ''Bearish'', ''No Data Available'', ''No Data Available'',
            ''No Data Available'', ''No Data Available'']
   \<and> ma_calculate_stochastic_oscillator example_ma = [Fin 50]
   \<and> ma_analyze example_ma = Inl ValueError"
proof -
  have stx: "ma_calculate_stochastic_oscillator example_ma = [Fin 50]"
    by (simp add: example_ma_def example_candle_def ma_calculate_stochastic_oscillator_def
          stochastic_series_def fl_eval series_eval)
  have ev: "evaluate_signals example_ma [NaN] [Fin 0] [Fin 0] [Fin 100] [NaN] [NaN] [NaN] [NaN]
              [Fin 50]
            = Inr [''No Data Available'', ''Bearish'', ''No Data Available'',
                   ''No Data Available'', ''No Data Available'', ''No Data Available'']"
    by (simp add: evaluate_signals_cases dropna_def rsi_signal_of_def macd_signal_of_def
          sma_signal_of_def bollinger_signal_of_def adx_signal_of_def vtr_signal_of_def fl_eval)
  show ?thesis
    using market_analyze_always_raises
      [of example_ma "[NaN]" "[Fin 0]" "[Fin 0]" "[Fin 100]" "[NaN]" "[NaN]" "[NaN]" "[NaN]"
          "[Fin 50]"] stx ev
    by (simp add: dropna_def)
qed

subsection \<open>WebSocketAnalyzer.analyze never returns BUY\<close>

lemma py_str_tuple_not_signal:
  "py_str rd (RTuple s v) \<noteq> ''BUY''" "py_str rd (RTuple s v) \<noteq> ''SELL''"
  by (simp_all add: py_str_def)

lemma py_str_series_not_signal:
  "py_str rd (RSeries xs) \<noteq> ''BUY''" "py_str rd (RSeries xs) \<noteq> ''SELL''"
proof -
  have "length (py_str rd (RSeries xs)) \<ge> 7"
    by (simp add: py_str_def)
  then show "py_str rd (RSeries xs) \<noteq> ''BUY''" "py_str rd (RSeries xs) \<noteq> ''SELL''"
    by auto
qed

lemma ws_calculate_rsi_shape: "ws_calculate_rsi self = Inr r \<Longrightarrow> \<exists>s. r = RStr s"
  by (auto simp: ws_calculate_rsi_def Let_def bind_r_def split: sum.splits if_splits)

lemma ws_calculate_macd_shape: "ws_calculate_macd self a b c = Inr r \<Longrightarrow> \<exists>s. r = RStr s"
  by (auto simp: ws_calculate_macd_def Let_def bind_r_def split: sum.splits if_splits)

lemma ws_calculate_bollinger_bands_shape:
  "ws_calculate_bollinger_bands self k = Inr r \<Longrightarrow> \<exists>s. r = RStr s"
  by (auto simp: ws_calculate_bollinger_bands_def Let_def bind_r_def
           split: sum.splits if_splits pyval.splits prod.splits)

lemma ws_calculate_adx_shape: "ws_calculate_adx self = Inr r \<Longrightarrow> \<exists>s. r = RStr s"
  by (auto simp: ws_calculate_adx_def Let_def bind_r_def split: sum.splits if_splits)

lemma run_strategies_shape:
  assumes "run_strategies self = Inr results"
  shows "\<exists>s1 s2 s3 v3 s4 s5 x6 x7.
           results = [RStr s1, RStr s2, RTuple s3 v3, RStr s4, RStr s5, RSeries x6, RSeries x7]"
proof -
  from assms obtain r1 r2 s3 v3 r4 r5 where
    1: "ws_calculate_rsi self = Inr r1" and 2: "ws_calculate_macd self 12 26 9 = Inr r2" and
    4: "ws_calculate_bollinger_bands self (Fin 2) = Inr r4" and
    5: "ws_calculate_adx self = Inr r5" and
    r: "results = [r1, r2, RTuple s3 v3, r4, r5, RSeries (ws_calculate_vtr self),
                  RSeries (ws_calculate_stochastic_oscillator self)]"
    by (auto simp: run_strategies_def bind_r_def split: sum.splits prod.splits)
  from 1 2 4 5 r show ?thesis
    by (auto dest!: ws_calculate_rsi_shape ws_calculate_macd_shape
                    ws_calculate_bollinger_bands_shape ws_calculate_adx_shape)
qed

lemma run_strategies_buy_count:
  assumes "run_strategies self = Inr results"
  shows "buy_count rd results \<le> 4"
proof -
  from run_strategies_shape [OF assms] obtain s1 s2 s3 v3 s4 s5 x6 x7 where
    "results = [RStr s1, RStr s2, RTuple s3 v3, RStr s4, RStr s5, RSeries x6, RSeries x7]"
    by blast
  then show ?thesis
    by (simp add: buy_count_def py_str_tuple_not_signal py_str_series_not_signal)
qed

text \<open>The strategies on the example analyzer: one observation, period 1.\<close>

lemma example_ws_rsi: "ws_calculate_rsi example_ws = Inr (RStr ''NEUTRAL'')"
  by (simp add: example_ws_def example_candle_def ws_calculate_rsi_def fl_eval series_eval)

lemma example_ws_macd: "ws_calculate_macd example_ws 12 26 9 = Inr (RStr ''NEUTRAL'')"
  by (simp add: example_ws_def example_candle_def ws_calculate_macd_def fl_eval series_eval)

lemma example_ws_sma: "ws_calculate_sma example_ws = Inr (''SELL'', PFloat (Fin 100))"
  by (simp add: example_ws_def example_candle_def ws_calculate_sma_def fl_eval series_eval)

lemma example_ws_bollinger:
  "ws_calculate_bollinger_bands example_ws (Fin 2) = Inr (RStr ''NEUTRAL'')"
  by (simp add: example_ws_def example_candle_def ws_calculate_bollinger_bands_def
        ws_calculate_sma_def fl_eval series_eval)

lemma example_true_range: "ws_true_range [example_candle] = [Fin 2]"
  by (simp add: example_candle_def ws_true_range_def fl_eval series_eval)

lemma example_atr: "ws_atr (Suc 0) [example_candle] = [Fin 2]"
  by (simp add: ws_atr_def example_true_range fl_eval series_eval)

lemma example_dm:
  "ws_plus_dm [example_candle] = [Fin 0]" "ws_minus_dm [example_candle] = [Fin 0]"
  by (simp_all add: example_candle_def ws_plus_dm_def ws_minus_dm_def fl_eval series_eval)

lemma example_di:
  "ws_plus_di (Suc 0) [example_candle] = [Fin 0]" "ws_minus_di (Suc 0) [example_candle] = [Fin 0]"
  by (simp_all add: ws_plus_di_def ws_minus_di_def example_dm example_atr fl_eval series_eval)

lemma example_adx_series: "ws_adx_series (Suc 0) [example_candle] = [NaN]"
  by (simp add: ws_adx_series_def example_di fl_eval series_eval)

lemma example_ws_adx: "ws_calculate_adx example_ws = Inr (RStr ''SELL'')"
  by (simp add: example_ws_def ws_calculate_adx_def example_adx_series fl_eval series_eval)

lemma example_ws_vtr: "ws_calculate_vtr example_ws = [NaN]"
  by (simp add: example_ws_def example_candle_def ws_calculate_vtr_def fl_eval series_eval)

lemma example_ws_stochastic: "ws_calculate_stochastic_oscillator example_ws = [Fin 50]"
  by (simp add: example_ws_def example_candle_def ws_calculate_stochastic_oscillator_def
        stochastic_series_def fl_eval series_eval)

lemma example_run_strategies:
  "run_strategies example_ws =
     Inr [RStr ''NEUTRAL'', RStr ''NEUTRAL'', RTuple ''SELL'' (PFloat (Fin 100)),
          RStr ''NEUTRAL'', RStr ''SELL'', RSeries [NaN], RSeries [Fin 50]]"
  by (simp add: run_strategies_def example_ws_rsi example_ws_macd example_ws_sma
        example_ws_bollinger example_ws_adx example_ws_vtr example_ws_stochastic bind_r_def)

lemma example_update_data:
  "update_data (example_ws\<lparr>ws_historical_data := []\<rparr>) [[example_candle]] = Inr example_ws"
  by (simp add: update_data_def example_ws_def add_ticker_def example_candle_def
        row_has_nan_def fl_eval)

lemma example_ws_analyze:
  "ws_analyze example_rendering (example_ws\<lparr>ws_historical_data := []\<rparr>) [[example_candle]]
     = Inr (''NEUTRAL'', example_ws)"
proof -
  have "calculate_signal example_rendering
          [RStr ''NEUTRAL'', RStr ''NEUTRAL'', RTuple ''SELL'' (PFloat (Fin 100)),
           RStr ''NEUTRAL'', RStr ''SELL'', RSeries [NaN], RSeries [Fin 50]] = ''NEUTRAL''"
    by (simp add: calculate_signal_def buy_count_def sell_count_def py_str_def
          example_rendering_def)
  moreover have "ws_check_risk example_ws = Inr True"
    by (simp add: ws_check_risk_def calculate_position_size_def example_ws_def bind_r_def
          f64_20000 f64_200 f64_2)
  ultimately show ?thesis
    by (simp add: ws_analyze_def example_update_data example_run_strategies bind_r_def)
qed

text \<open>
  C4. \<open>WebSocketAnalyzer.analyze\<close> never returns \<open>"BUY"\<close>. Of the seven strategy results
  that \<open>calculate_signal\<close> compares with \<open>"BUY"\<close> through \<open>str\<close>, \<open>calculate_sma\<close>
  gives a tuple and \<open>calculate_vtr\<close> and \<open>calculate_stochastic_oscillator\<close> give
  Series, so at most four can be counted, below the threshold of five.
\<close>

theorem ws_analyze_never_buy:
  "ws_analyze rd self websocket_data \<noteq> Inr (''BUY'', self')
   \<and> (run_strategies self = Inr results \<longrightarrow>
        buy_count rd results \<le> 4 \<and> calculate_signal rd results \<noteq> ''BUY'')"
proof -
  have a: "calculate_signal rd rs \<noteq> ''BUY''" if "run_strategies st = Inr rs" for st rs
    using run_strategies_buy_count [OF that, of rd] by (simp add: calculate_signal_def)
  have "ws_analyze rd self websocket_data \<noteq> Inr (''BUY'', self')"
    using a by (auto simp: ws_analyze_def bind_r_def Let_def split: sum.splits if_splits)
  moreover have "run_strategies self = Inr results \<longrightarrow>
        buy_count rd results \<le> 4 \<and> calculate_signal rd results \<noteq> ''BUY''"
    using a run_strategies_buy_count by blast
  ultimately show ?thesis by blast
qed

theorem ws_analyze_never_buy_witness:
  "run_strategies example_ws =
     Inr [RStr ''NEUTRAL'', RStr ''NEUTRAL'', RTuple ''SELL'' (PFloat (Fin 100)),
          RStr ''NEUTRAL'', RStr ''SELL'', RSeries [NaN], RSeries [Fin 50]]
   \<and> buy_count example_rendering
        [RStr ''NEUTRAL'', RStr ''NEUTRAL'', RTuple ''SELL'' (PFloat (Fin 100)),
         RStr ''NEUTRAL'', RStr ''SELL'', RSeries [NaN], RSeries [Fin 50]] \<le> 4
   \<and> ws_analyze example_rendering (example_ws\<lparr>ws_historical_data := []\<rparr>) [[example_candle]]
        = Inr (''NEUTRAL'', example_ws)"
  using ws_analyze_never_buy
    [of example_rendering example_ws "[[example_candle]]" example_ws
        "[RStr ''NEUTRAL'', RStr ''NEUTRAL'', RTuple ''SELL'' (PFloat (Fin 100)),
          RStr ''NEUTRAL'', RStr ''SELL'', RSeries [NaN], RSeries [Fin 50]]"]
    example_run_strategies example_ws_analyze
  by simp

subsection \<open>The range of the RSI\<close>

lemma where_gt_c: "where_s xs (gt_c xs c) other = map (\<lambda>x. if fgt x c then x else other) xs"
  by (induction xs) (simp_all add: where_s_def gt_c_def)

lemma where_lt_c: "where_s xs (lt_c xs c) other = map (\<lambda>x. if flt x c then x else other) xs"
  by (induction xs) (simp_all add: where_s_def lt_c_def)

lemma diff_fin_or_nan:
  "list_all is_fin xs \<Longrightarrow> i < length xs \<Longrightarrow> is_nan (diff xs ! i) \<or> is_fin (diff xs ! i)"
  by (auto simp: diff_nth list_all_length fsub_fin)

lemma gain_part_fin:
  assumes "is_nan d \<or> is_fin d"
  shows "is_fin (if fgt d (Fin 0) then d else Fin 0)"
    and "0 \<le> fval (if fgt d (Fin 0) then d else Fin 0)"
    and "is_fin (if flt d (Fin 0) then d else Fin 0)"
    and "fval (if flt d (Fin 0) then d else Fin 0) \<le> 0"
  using assms by (cases d; simp add: fgt_def flt_def)+

lemma last_rsi_of_rs:
  assumes "length gain = length loss" "gain \<noteq> []"
  shows "last (rsi_of_rs (sdiv gain loss)) =
           fsub (Fin 100) (fdiv (Fin 100) (fadd (Fin 1) (fdiv (last gain) (last loss))))"
proof -
  have "loss \<noteq> []" using assms by auto
  then have "last (zip gain loss) = (last gain, last loss)"
    using assms by (simp add: last_zip)
  moreover have "zip gain loss \<noteq> []" using assms \<open>loss \<noteq> []\<close> by (cases gain; cases loss; simp)
  ultimately show ?thesis
    by (simp add: rsi_of_rs_def sdiv_def csub_s_def cdiv_s_def cadd_s_def last_map)
qed

lemma rsi_point:
  assumes "is_fin g" "is_fin l" "0 \<le> fval g" "0 \<le> fval l"
  shows "fsub (Fin 100) (fdiv (Fin 100) (fadd (Fin 1) (fdiv g l))) =
           (if fval l = 0 then (if fval g = 0 then NaN else Fin 100)
            else Fin (100 - 100 / (1 + fval g / fval l)))"
proof (cases "fval l = 0")
  case True
  then show ?thesis using assms
    by (cases g; cases l; simp add: fl_eval)
next
  case False
  then have pos: "0 < fval l" using assms by simp
  have q: "is_fin (fdiv g l)" "fval (fdiv g l) = fval g / fval l"
    using fdiv_fin [OF assms(1,2) False] by simp_all
  have nn: "0 \<le> fval g / fval l" using assms pos by simp
  have s: "is_fin (fadd (Fin 1) (fdiv g l))" "fval (fadd (Fin 1) (fdiv g l)) = 1 + fval g / fval l"
    using fadd_fin [of "Fin 1" "fdiv g l"] q by simp_all
  have nz: "fval (fadd (Fin 1) (fdiv g l)) \<noteq> 0" using s nn by simp
  have d: "is_fin (fdiv (Fin 100) (fadd (Fin 1) (fdiv g l)))"
          "fval (fdiv (Fin 100) (fadd (Fin 1) (fdiv g l))) = 100 / (1 + fval g / fval l)"
    using fdiv_fin [of "Fin 100" "fadd (Fin 1) (fdiv g l)"] s nz by simp_all
  have "fsub (Fin 100) (fdiv (Fin 100) (fadd (Fin 1) (fdiv g l)))
          = Fin (100 - fval (fdiv (Fin 100) (fadd (Fin 1) (fdiv g l))))"
    using d(1) by (cases "fdiv (Fin 100) (fadd (Fin 1) (fdiv g l))"; simp add: fsub_def fadd_def)
  then show ?thesis using False d by simp
qed

lemma rsi_point_bounds:
  assumes "0 \<le> (g::real)" "0 < l"
  shows "0 \<le> 100 - 100 / (1 + g / l)" "100 - 100 / (1 + g / l) \<le> 100"
proof -
  have "1 \<le> 1 + g / l" using assms by simp
  then have "100 / (1 + g / l) \<le> 100" by (simp add: divide_le_eq)
  then show "0 \<le> 100 - 100 / (1 + g / l)" by simp
  have "0 \<le> 100 / (1 + g / l)" using assms by simp
  then show "100 - 100 / (1 + g / l) \<le> 100" by simp
qed
lemma in_set_window:
  assumes "i < length xs" "w \<le> Suc i"
  shows "x \<in> set (window w i xs) \<longleftrightarrow> (\<exists>j. Suc i - w \<le> j \<and> j \<le> i \<and> x = xs ! j)"
proof
  assume "x \<in> set (window w i xs)"
  then obtain k where k: "k < length (window w i xs)" "x = window w i xs ! k"
    by (auto simp: in_set_conv_nth)
  then have "k < w" using assms by (simp add: window_full)
  then have "x = xs ! (Suc i - w + k)" using k assms by (simp add: window_nth)
  moreover have "Suc i - w \<le> Suc i - w + k" "Suc i - w + k \<le> i" using \<open>k < w\<close> assms by auto
  ultimately show "\<exists>j. Suc i - w \<le> j \<and> j \<le> i \<and> x = xs ! j" by blast
next
  assume "\<exists>j. Suc i - w \<le> j \<and> j \<le> i \<and> x = xs ! j"
  then obtain j where j: "Suc i - w \<le> j" "j \<le> i" "x = xs ! j" by blast
  define k where "k = j - (Suc i - w)"
  have kw: "k < w" using j assms by (auto simp: k_def)
  have "window w i xs ! k = xs ! (Suc i - w + k)" using assms kw by (simp add: window_nth)
  also have "Suc i - w + k = j" using j by (simp add: k_def)
  finally have "window w i xs ! k = x" using j by simp
  moreover have "k < length (window w i xs)" using kw assms by (simp add: window_full)
  ultimately show "x \<in> set (window w i xs)" by (auto simp: in_set_conv_nth)
qed

lemma in_set_window_last:
  assumes "0 < length xs" "w \<le> length xs"
  shows "x \<in> set (window w (length xs - 1) xs)
           \<longleftrightarrow> (\<exists>j. length xs - w \<le> j \<and> j < length xs \<and> x = xs ! j)"
proof -
  have a: "length xs - 1 < length xs" "w \<le> Suc (length xs - 1)" using assms by auto
  have b: "Suc (length xs - 1) - w = length xs - w" using assms by auto
  have c: "j \<le> length xs - 1 \<longleftrightarrow> j < length xs" for j using assms by (cases xs) auto
  show ?thesis unfolding in_set_window [OF a] b c ..
qed

lemma calculate_rsi_value:
  assumes fin: "list_all (\<lambda>r. is_fin (close r)) df"
    and len: "period \<le> length df" and pos: "0 < period"
  defines "closes \<equiv> col_close df"
  defines "G \<equiv> map (\<lambda>d. if fgt d (Fin 0) then d else Fin 0) (diff closes)"
  defines "L \<equiv> map (\<lambda>d. if flt d (Fin 0) then d else Fin 0) (diff closes)"
  defines "gw \<equiv> window period (length df - 1) G"
  defines "lw \<equiv> window period (length df - 1) L"
  defines "g \<equiv> sum_list (map fval gw) / real period"
  defines "l \<equiv> - (sum_list (map fval lw) / real period)"
  defines "r \<equiv> (if l = 0 then (if g = 0 then NaN else Fin 100) else Fin (100 - 100 / (1 + g / l)))"
  shows "calculate_rsi df period =
           Inr (if fgt r (Fin 70) then ''SELL'' else if flt r (Fin 30) then ''BUY'' else ''NEUTRAL'',
                PFloat r)"
    and "list_all (\<lambda>v. is_fin v \<and> 0 \<le> fval v) gw"
    and "list_all (\<lambda>v. is_fin v \<and> fval v \<le> 0) lw"
    and "0 \<le> g" and "0 \<le> l"
proof -
  have n: "0 < length df" using len pos by (cases df) auto
  have cf: "list_all is_fin closes" using fin by (simp add: closes_def col_close_def list_all_iff)
  have lc: "length closes = length df" by (simp add: closes_def col_close_def)
  have Gall: "list_all (\<lambda>v. is_fin v \<and> 0 \<le> fval v) G"
    unfolding G_def list_all_length
    using diff_fin_or_nan [OF cf] gain_part_fin(1,2) by (simp add: lc)
  have Lall: "list_all (\<lambda>v. is_fin v \<and> fval v \<le> 0) L"
    unfolding L_def list_all_length
    using diff_fin_or_nan [OF cf] gain_part_fin(3,4) by (simp add: lc)
  show gwall: "list_all (\<lambda>v. is_fin v \<and> 0 \<le> fval v) gw"
    unfolding gw_def using Gall by (rule list_all_window)
  show lwall: "list_all (\<lambda>v. is_fin v \<and> fval v \<le> 0) lw"
    unfolding lw_def using Lall by (rule list_all_window)
  have lG: "length G = length df" "length L = length df" by (simp_all add: G_def L_def lc)
  have gwf: "list_all is_fin gw" "list_all is_fin lw"
    using gwall lwall by (auto simp: list_all_iff)
  have gwl: "length gw = period" "length lw = period"
    using len n by (simp_all add: gw_def lw_def window_full lG)
  then have gwne: "gw \<noteq> []" "lw \<noteq> []" using pos by auto
  have gainlast: "rolling period period agg_mean G ! (length df - 1) = agg_mean gw"
    unfolding gw_def using gwf(1) len n pos by (intro rolling_nth_fin) (simp_all add: lG gw_def)
  have losslast: "rolling period period agg_mean L ! (length df - 1) = agg_mean lw"
    unfolding lw_def using gwf(2) len n pos by (intro rolling_nth_fin) (simp_all add: lG lw_def)
  have gm: "is_fin (agg_mean gw)" "fval (agg_mean gw) = g"
    using agg_mean_fin [OF gwf(1) gwne(1)] by (simp_all add: g_def gwl)
  have lm: "is_fin (agg_mean lw)" "fval (agg_mean lw) = - l"
    using agg_mean_fin [OF gwf(2) gwne(2)] by (simp_all add: l_def gwl)
  have "0 \<le> sum_list (map fval gw)"
    using gwall by (intro sum_list_nonneg) (auto simp: list_all_iff)
  then show g0: "0 \<le> g" by (simp add: g_def)
  have "sum_list (map fval lw) \<le> 0"
    using lwall by (intro sum_list_nonpos) (auto simp: list_all_iff)
  then show l0: "0 \<le> l" by (simp add: l_def divide_nonpos_nonneg)
  define gain where "gain = rolling period period agg_mean G"
  define loss where "loss = sneg (rolling period period agg_mean L)"
  have lgn: "length gain = length df" "length loss = length df"
    by (simp_all add: gain_def loss_def sneg_def lG)
  have lgl: "length gain = length loss" "gain \<noteq> []"
    using n lgn by (simp, metis length_greater_0_conv)
  have lastg: "last gain = agg_mean gw"
    using lgl(2) gainlast by (simp add: last_conv_nth gain_def lG)
  have "loss \<noteq> []" using lgl by auto
  then have lastl: "last loss = fneg (agg_mean lw)"
    using losslast n by (simp add: last_conv_nth loss_def sneg_def lG)
  have fl: "is_fin (last loss)" "fval (last loss) = l"
    using fneg_fin [OF lm(1)] lm(2) by (simp_all add: lastl)
  have "last (rsi_of_rs (sdiv gain loss)) = r"
    unfolding last_rsi_of_rs [OF lgl]
    using rsi_point [of "last gain" "last loss"] gm fl g0 l0 by (simp add: lastg r_def)
  moreover have "rsi_of_rs (sdiv gain loss) \<noteq> []"
    using lgl \<open>loss \<noteq> []\<close>
    by (cases gain; cases loss; simp add: rsi_of_rs_def sdiv_def csub_s_def cdiv_s_def cadd_s_def)
  ultimately show "calculate_rsi df period =
           Inr (if fgt r (Fin 70) then ''SELL'' else if flt r (Fin 30) then ''BUY'' else ''NEUTRAL'',
                PFloat r)"
    using len
    by (simp add: calculate_rsi_def Let_def where_gt_c where_lt_c bind_r_def iloc_last_def
          gain_def loss_def G_def L_def closes_def)
qed
lemma flt_fin: "is_fin a \<Longrightarrow> is_fin b \<Longrightarrow> flt a b \<longleftrightarrow> fval a < fval b"
  by (cases a; cases b; simp add: flt_def)

lemma sum_list_fval_zero: "\<forall>x\<in>set xs. fval x = 0 \<Longrightarrow> sum_list (map fval xs) = 0"
  by (induction xs) simp_all

lemma calculate_rsi_cases:
  assumes fin: "list_all (\<lambda>r. is_fin (close r)) df"
    and len: "period \<le> length df" and pos: "0 < period"
  shows "\<exists>sig r. calculate_rsi df period = Inr (sig, PFloat r)
      \<and> (is_nan r \<or> (\<exists>x. r = Fin x \<and> 0 \<le> x \<and> x \<le> 100))
      \<and> (2 \<le> length df
           \<and> (\<forall>i. length df - period \<le> i \<and> i < length df \<and> 0 < i
                  \<longrightarrow> fval (close (df ! (i - 1))) < fval (close (df ! i)))
          \<longrightarrow> r = Fin 100 \<and> sig = ''SELL'')
      \<and> ((\<forall>i. length df - period \<le> i \<and> i < length df \<and> 0 < i
                  \<longrightarrow> fval (close (df ! (i - 1))) = fval (close (df ! i)))
          \<longrightarrow> is_nan r \<and> sig = ''NEUTRAL'')"
proof -
  define closes where "closes = col_close df"
  define G where "G = map (\<lambda>d. if fgt d (Fin 0) then d else Fin 0) (diff closes)"
  define L where "L = map (\<lambda>d. if flt d (Fin 0) then d else Fin 0) (diff closes)"
  define gw where "gw = window period (length df - 1) G"
  define lw where "lw = window period (length df - 1) L"
  define g where "g = sum_list (map fval gw) / real period"
  define l where "l = - (sum_list (map fval lw) / real period)"
  define r where "r = (if l = 0 then (if g = 0 then NaN else Fin 100)
                       else Fin (100 - 100 / (1 + g / l)))"
  define sig where "sig = (if fgt r (Fin 70) then ''SELL''
                           else if flt r (Fin 30) then ''BUY'' else ''NEUTRAL'')"
  note v = calculate_rsi_value [OF fin len pos,
      folded closes_def, folded G_def L_def, folded gw_def lw_def, folded g_def l_def, folded r_def]
  have res: "calculate_rsi df period = Inr (sig, PFloat r)"
    using v(1) by (simp add: sig_def)
  have n: "0 < length df" using len pos by (cases df) auto
  have lc: "length closes = length df" by (simp add: closes_def col_close_def)
  have cf: "\<And>j. j < length df \<Longrightarrow> is_fin (closes ! j) \<and> fval (closes ! j) = fval (close (df ! j))"
    using fin by (simp add: closes_def col_close_def list_all_length)
  have bound: "is_nan r \<or> (\<exists>x. r = Fin x \<and> 0 \<le> x \<and> x \<le> 100)"
  proof (cases "l = 0")
    case True
    then show ?thesis by (simp add: r_def)
  next
    case False
    then have "0 < l" using v(5) by simp
    then show ?thesis using rsi_point_bounds [OF v(4), of l] False by (simp add: r_def)
  qed
  have inG: "x \<in> set gw \<longleftrightarrow> (\<exists>j. length df - period \<le> j \<and> j < length df \<and> x = G ! j)" for x
    using in_set_window_last [of G period x] n len
    by (simp add: gw_def G_def lc)
  have inL: "x \<in> set lw \<longleftrightarrow> (\<exists>j. length df - period \<le> j \<and> j < length df \<and> x = L ! j)" for x
    using in_set_window_last [of L period x] n len
    by (simp add: lw_def L_def lc)
  have dj: "diff closes ! j = (if j = 0 then NaN else fsub (closes ! j) (closes ! (j - 1)))"
    if "j < length df" for j
    using that by (simp add: diff_nth lc)
  have dfin: "is_fin (fsub (closes ! j) (closes ! (j - 1)))
              \<and> fval (fsub (closes ! j) (closes ! (j - 1)))
                  = fval (close (df ! j)) - fval (close (df ! (j - 1)))"
    if "j < length df" for j
    using that cf [of j] cf [of "j - 1"] fsub_fin [of "closes ! j" "closes ! (j - 1)"] by simp
  have rising: "r = Fin 100 \<and> sig = ''SELL''"
    if two: "2 \<le> length df"
      and up: "\<forall>i. length df - period \<le> i \<and> i < length df \<and> 0 < i
                  \<longrightarrow> fval (close (df ! (i - 1))) < fval (close (df ! i))"
  proof -
    have "fval x = 0" if "x \<in> set lw" for x
    proof -
      from that obtain j where j: "length df - period \<le> j" "j < length df" "x = L ! j"
        using inL by blast
      show ?thesis
      proof (cases "j = 0")
        case True
        then show ?thesis using j by (simp add: L_def lc dj flt_def)
      next
        case False
        then have "0 < fval (fsub (closes ! j) (closes ! (j - 1)))"
          using up [rule_format, of j] j dfin [of j] by simp
        then have "\<not> flt (fsub (closes ! j) (closes ! (j - 1))) (Fin 0)"
          using dfin [OF j(2)] by (simp add: flt_fin)
        then show ?thesis using j False by (simp add: L_def lc dj)
      qed
    qed
    then have l0: "l = 0" by (simp add: l_def sum_list_fval_zero)
    let ?j = "length df - 1"
    have jr: "length df - period \<le> ?j" "?j < length df" "0 < ?j" using two pos by auto
    then have "0 < fval (fsub (closes ! ?j) (closes ! (?j - 1)))"
      using up [rule_format, of ?j] dfin [of ?j] by simp
    moreover from this have "flt (Fin 0) (fsub (closes ! ?j) (closes ! (?j - 1)))"
      using dfin [OF jr(2)] by (simp add: flt_fin)
    ultimately have "0 < fval (G ! ?j)"
      using jr by (simp add: G_def lc dj fgt_def)
    moreover have "G ! ?j \<in> set gw" using inG jr by blast
    ultimately have "\<not> (\<forall>x\<in>set (map fval gw). x = 0)" by force
    moreover have "\<forall>x\<in>set (map fval gw). 0 \<le> x" using v(2) by (auto simp: list_all_iff)
    ultimately have "sum_list (map fval gw) \<noteq> 0"
      using sum_list_nonneg_eq_0_iff [of "map fval gw"] by blast
    then have "g \<noteq> 0" using pos by (simp add: g_def)
    then have "r = Fin 100" using l0 by (simp add: r_def)
    then show ?thesis by (simp add: sig_def fgt_def flt_def)
  qed
  have flat: "is_nan r \<and> sig = ''NEUTRAL''"
    if eq: "\<forall>i. length df - period \<le> i \<and> i < length df \<and> 0 < i
                  \<longrightarrow> fval (close (df ! (i - 1))) = fval (close (df ! i))"
  proof -
    have z: "\<not> flt d (Fin 0) \<and> \<not> fgt d (Fin 0)"
      if "d = diff closes ! j" "length df - period \<le> j" "j < length df" for d j
    proof (cases "j = 0")
      case True
      then show ?thesis using that by (simp add: dj flt_def fgt_def)
    next
      case False
      then have "fval d = 0" "is_fin d"
        using that eq [rule_format, of j] dfin [of j] by (simp_all add: dj)
      then show ?thesis by (simp add: flt_fin fgt_def)
    qed
    have "fval x = 0" if "x \<in> set lw" for x
    proof -
      from that obtain j where j: "length df - period \<le> j" "j < length df" "x = L ! j"
        using inL by blast
      then show ?thesis using z [of "diff closes ! j" j] by (simp add: L_def lc)
    qed
    then have l0: "l = 0" by (simp add: l_def sum_list_fval_zero)
    have "fval x = 0" if "x \<in> set gw" for x
    proof -
      from that obtain j where j: "length df - period \<le> j" "j < length df" "x = G ! j"
        using inG by blast
      then show ?thesis using z [of "diff closes ! j" j] by (simp add: G_def lc)
    qed
    then have "g = 0" by (simp add: g_def sum_list_fval_zero)
    then have "r = NaN" using l0 by (simp add: r_def)
    then show ?thesis by (simp add: sig_def fgt_def flt_def)
  qed
  from res bound rising flat show ?thesis by blast
qed

text \<open>
  C6 (amended). For a window of finite closes with at least \<open>period\<close> observations
  (\<open>period\<close> at least 1), \<open>calculate_rsi\<close> returns a value that is NaN or lies in \<open>[0, 100]\<close>. When the closes
  rise strictly over the last \<open>period\<close> steps the value is 100 (the division by the zero
  mean loss gives an infinity, there is no guard). When the closes are flat over the last
  \<open>period\<close> steps, mean gain and mean loss are both zero and the value is NaN, with the
  signal \<open>"NEUTRAL"\<close>.
\<close>

theorem rsi_range_and_guard:
  assumes "list_all (\<lambda>r. is_fin (close r)) df"
    and "period \<le> length df" and "0 < period"
  shows "\<exists>sig r. calculate_rsi df period = Inr (sig, PFloat r)
      \<and> (is_nan r \<or> (\<exists>x. r = Fin x \<and> 0 \<le> x \<and> x \<le> 100))
      \<and> (2 \<le> length df
           \<and> (\<forall>i. length df - period \<le> i \<and> i < length df \<and> 0 < i
                  \<longrightarrow> fval (close (df ! (i - 1))) < fval (close (df ! i)))
          \<longrightarrow> r = Fin 100 \<and> sig = ''SELL'')
      \<and> ((\<forall>i. length df - period \<le> i \<and> i < length df \<and> 0 < i
                  \<longrightarrow> fval (close (df ! (i - 1))) = fval (close (df ! i)))
          \<longrightarrow> is_nan r \<and> sig = ''NEUTRAL'')"
  using assms by (rule calculate_rsi_cases)

theorem rsi_range_and_guard_witness:
  "calculate_rsi rising_candles 2 = Inr (''SELL'', PFloat (Fin 100))
   \<and> calculate_rsi (replicate 3 example_candle) 2 = Inr (''NEUTRAL'', PFloat NaN)"
proof -
  have h: "list_all (\<lambda>r. is_fin (close r)) rising_candles" "2 \<le> length rising_candles"
    by (simp_all add: rising_candles_def)
  have up: "\<forall>i. length rising_candles - 2 \<le> i \<and> i < length rising_candles \<and> 0 < i
              \<longrightarrow> fval (close (rising_candles ! (i - 1))) < fval (close (rising_candles ! i))"
  proof (intro allI impI)
    fix i
    assume "length rising_candles - 2 \<le> i \<and> i < length rising_candles \<and> 0 < i"
    then have "i = 1 \<or> i = 2" by (auto simp: rising_candles_def)
    then show "fval (close (rising_candles ! (i - 1))) < fval (close (rising_candles ! i))"
      by (auto simp: rising_candles_def)
  qed
  have g: "list_all (\<lambda>r. is_fin (close r)) (replicate 3 example_candle)"
    "2 \<le> length (replicate 3 example_candle)"
    by (simp_all add: example_candle_def list_all_iff)
  have flat: "\<forall>i. length (replicate 3 example_candle) - 2 \<le> i
                   \<and> i < length (replicate 3 example_candle) \<and> 0 < i
              \<longrightarrow> fval (close (replicate 3 example_candle ! (i - 1)))
                    = fval (close (replicate 3 example_candle ! i))"
  proof (intro allI impI)
    fix i
    assume a: "length (replicate 3 example_candle) - 2 \<le> i
                 \<and> i < length (replicate 3 example_candle) \<and> 0 < i"
    then have "i - 1 < 3" "i < 3" by auto
    then show "fval (close (replicate 3 example_candle ! (i - 1)))
                 = fval (close (replicate 3 example_candle ! i))"
      by (simp only: nth_replicate)
  qed
  from rsi_range_and_guard [OF h(1) h(2)] h(2) up
  have "calculate_rsi rising_candles 2 = Inr (''SELL'', PFloat (Fin 100))" by auto
  moreover from rsi_range_and_guard [OF g(1) g(2)] flat
  have "calculate_rsi (replicate 3 example_candle) 2 = Inr (''NEUTRAL'', PFloat NaN)"
    by (auto simp: is_nan.simps elim!: is_nan.elims)
  ultimately show ?thesis by simp
qed

theorem rsi_flat_window_counterexample:
  "14 \<le> length (replicate 14 example_candle)
   \<and> calculate_rsi (replicate 14 example_candle) 14 = Inr (''NEUTRAL'', PFloat NaN)
   \<and> \<not> fle (Fin 0) NaN \<and> \<not> fle NaN (Fin 100)"
proof -
  have g: "list_all (\<lambda>r. is_fin (close r)) (replicate 14 example_candle)"
    "14 \<le> length (replicate 14 example_candle)"
    by (simp_all add: example_candle_def list_all_iff)
  have flat: "\<forall>i. length (replicate 14 example_candle) - 14 \<le> i
                   \<and> i < length (replicate 14 example_candle) \<and> 0 < i
              \<longrightarrow> fval (close (replicate 14 example_candle ! (i - 1)))
                    = fval (close (replicate 14 example_candle ! i))"
  proof (intro allI impI)
    fix i
    assume a: "length (replicate 14 example_candle) - 14 \<le> i
                 \<and> i < length (replicate 14 example_candle) \<and> 0 < i"
    then have "i - 1 < 14" "i < 14" by auto
    then show "fval (close (replicate 14 example_candle ! (i - 1)))
                 = fval (close (replicate 14 example_candle ! i))"
      by (simp only: nth_replicate)
  qed
  from calculate_rsi_cases [OF g(1) g(2)] flat
  have "calculate_rsi (replicate 14 example_candle) 14 = Inr (''NEUTRAL'', PFloat NaN)"
    by (auto elim!: is_nan.elims)
  then show ?thesis by (simp add: fl_eval)
qed

subsection \<open>The order of the Bollinger bands\<close>

lemma fle_fin: "is_fin a \<Longrightarrow> is_fin b \<Longrightarrow> fle a b \<longleftrightarrow> fval a \<le> fval b"
  by (cases a; cases b; auto simp: fle_def feq_def flt_def)

lemma agg_std_Fin:
  assumes "agg_std obs = Fin s"
  shows "list_all is_fin obs" and "obs \<noteq> []" and "0 \<le> s"
proof -
  from assms have a: "\<not> (length obs < 2 \<or> \<not> list_all is_fin obs)"
    by (auto simp: agg_std_def split: if_splits)
  then show "list_all is_fin obs" "obs \<noteq> []" by auto
  from assms a have "s = sqrt (sum_list (map (\<lambda>y. (y - sum_list (map fval obs) / real (length obs))\<^sup>2)
                                 (map fval obs)) / (real (length obs) - 1))"
    by (simp add: agg_std_def Let_def)
  moreover have "0 \<le> sum_list (map (\<lambda>y. (y - sum_list (map fval obs) / real (length obs))\<^sup>2)
                                 (map fval obs))"
    by (intro sum_list_nonneg) auto
  moreover have "0 \<le> real (length obs) - 1" using a by simp
  ultimately show "0 \<le> s" by simp
qed

lemma last_map2:
  assumes "length xs = length ys" "xs \<noteq> []"
  shows "last (map2 f xs ys) = f (last xs) (last ys)"
proof -
  have "ys \<noteq> []" using assms by auto
  then have "last (zip xs ys) = (last xs, last ys)" using assms by (simp add: last_zip)
  moreover have "zip xs ys \<noteq> []" using assms \<open>ys \<noteq> []\<close> by (cases xs; cases ys; simp)
  ultimately show ?thesis by (simp add: last_map)
qed


text \<open>
  C8. When the rolling standard deviation of the close at the last observation is a finite
  number \<open>s\<close>, it is not negative, the SMA there is finite, and
  \<open>calculate_bollinger_bands\<close> (with \<open>k = 2\<close>) returns \<open>upper = SMA + 2 * s\<close> and
  \<open>lower = SMA - 2 * s\<close>, so that \<open>lower \<le> SMA \<le> upper\<close>.
\<close>

theorem bollinger_band_order:
  assumes std: "iloc_last (rolling period period agg_std (col_close df)) = Inr (Fin s)"
    and len: "period \<le> length df"
  shows "\<exists>sig ub lb m.
           calculate_bollinger_bands df period (Fin 2) = Inr (sig, PPair (PFloat ub) (PFloat lb))
           \<and> iloc_last (rolling period period agg_mean (col_close df)) = Inr m
           \<and> is_fin m \<and> is_fin ub \<and> is_fin lb
           \<and> fval ub = fval m + 2 * s \<and> fval lb = fval m - 2 * s
           \<and> 0 \<le> s \<and> fle lb m \<and> fle m ub"
proof -
  define closes where "closes = col_close df"
  define sd where "sd = rolling period period agg_std closes"
  define sma where "sma = rolling period period agg_mean closes"
  define obs where "obs = observed (window period (length df - 1) closes)"
  have lc: "length closes = length df" by (simp add: closes_def col_close_def)
  from std have ne: "sd \<noteq> []" and ls: "last sd = Fin s"
    by (auto simp: iloc_last_def sd_def closes_def split: if_splits)
  then have n: "0 < length df" using lc by (auto simp: sd_def)
  then have i: "length df - 1 < length closes" using lc by simp
  have "sd ! (length df - 1) = Fin s"
    using ls ne by (simp add: last_conv_nth sd_def lc)
  then have c: "obs \<noteq> [] \<and> period \<le> length obs" and a: "agg_std obs = Fin s"
    using i by (auto simp: sd_def rolling_nth obs_def Let_def split: if_splits)
  note o = agg_std_Fin [OF a]
  have "sma ! (length df - 1) = agg_mean obs"
    using i c by (simp add: sma_def rolling_nth obs_def Let_def)
  moreover have "sma \<noteq> []" using n lc by (auto simp: sma_def)
  ultimately have lm: "last sma = agg_mean obs"
    by (simp add: last_conv_nth sma_def lc)
  define m where "m = agg_mean obs"
  have mf: "is_fin m" using agg_mean_fin [OF o(1,2)] by (simp add: m_def)
  define k where "k = fmul (Fin 2) (Fin s)"
  have kf: "is_fin k" "fval k = 2 * s" using fmul_fin [of "Fin 2" "Fin s"] by (simp_all add: k_def)
  define ub where "ub = fadd m k"
  define lb where "lb = fsub m k"
  have uf: "is_fin ub" "fval ub = fval m + 2 * s"
    using fadd_fin [OF mf kf(1)] kf(2) by (simp_all add: ub_def)
  have lf: "is_fin lb" "fval lb = fval m - 2 * s"
    using fsub_fin [OF mf kf(1)] kf(2) by (simp_all add: lb_def)
  have lsk: "last (smul_c (Fin 2) sd) = k"
    using ne ls by (simp add: smul_c_def last_map k_def)
  have lens: "length sma = length (smul_c (Fin 2) sd)" by (simp add: sma_def sd_def smul_c_def)
  have lu: "last (sadd sma (smul_c (Fin 2) sd)) = ub"
    unfolding sadd_def using last_map2 [OF lens \<open>sma \<noteq> []\<close>, of fadd] lm lsk
    by (simp add: ub_def m_def)
  have ll: "last (ssub sma (smul_c (Fin 2) sd)) = lb"
    unfolding ssub_def using last_map2 [OF lens \<open>sma \<noteq> []\<close>, of fsub] lm lsk
    by (simp add: lb_def m_def)
  have ne2: "sadd sma (smul_c (Fin 2) sd) \<noteq> []" "ssub sma (smul_c (Fin 2) sd) \<noteq> []" "closes \<noteq> []"
    using n lc lens \<open>sma \<noteq> []\<close>
    by (auto simp: sadd_def ssub_def smul_c_def sma_def sd_def rolling_def)
  have "calculate_bollinger_bands df period (Fin 2) =
          Inr (if flt (last closes) lb then ''BUY''
               else if fgt (last closes) ub then ''SELL'' else ''NEUTRAL'',
               PPair (PFloat ub) (PFloat lb))"
    using len ne2 lu ll
    by (simp add: calculate_bollinger_bands_def Let_def bind_r_def iloc_last_def
          closes_def [symmetric] sma_def [symmetric] sd_def [symmetric])
  moreover have "iloc_last (rolling period period agg_mean (col_close df)) = Inr m"
    using \<open>sma \<noteq> []\<close> lm by (simp add: iloc_last_def sma_def closes_def m_def)
  moreover have "fle lb m" "fle m ub"
    using o(3) by (simp_all add: fle_fin mf uf lf)
  ultimately show ?thesis using mf uf lf o(3) by blast
qed


theorem bollinger_band_order_witness:
  "iloc_last (rolling 3 3 agg_std (col_close rising_candles)) = Inr (Fin 1)
   \<and> iloc_last (rolling 3 3 agg_mean (col_close rising_candles)) = Inr (Fin 2)
   \<and> calculate_bollinger_bands rising_candles 3 (Fin 2)
        = Inr (''NEUTRAL'', PPair (PFloat (Fin 4)) (PFloat (Fin 0)))"
proof -
  have sd: "iloc_last (rolling 3 3 agg_std (col_close rising_candles)) = Inr (Fin 1)"
    by (simp add: rising_candles_def fl_eval series_eval)
  have len: "3 \<le> length rising_candles" by (simp add: rising_candles_def)
  have m: "iloc_last (rolling 3 3 agg_mean (col_close rising_candles)) = Inr (Fin 2)"
    by (simp add: rising_candles_def fl_eval series_eval)
  have c: "fval (last (col_close rising_candles)) = 3" "is_fin (last (col_close rising_candles))"
    by (simp_all add: rising_candles_def col_close_def)
  from bollinger_band_order [OF sd len] m obtain sig ub lb where
    r: "calculate_bollinger_bands rising_candles 3 (Fin 2)
          = Inr (sig, PPair (PFloat ub) (PFloat lb))"
    and u: "is_fin ub" "fval ub = 4" and l: "is_fin lb" "fval lb = 0"
    by auto
  have "calculate_bollinger_bands rising_candles 3 (Fin 2)
          = Inr (''NEUTRAL'', PPair (PFloat (Fin 4)) (PFloat (Fin 0)))"
    by (simp add: calculate_bollinger_bands_def rising_candles_def fl_eval series_eval)
  then show ?thesis using sd m by simp
qed

subsection \<open>The SMA signal\<close>

lemma calculate_sma_signal:
  assumes "period \<le> length df" "df \<noteq> []"
  shows "calculate_sma df period =
           Inr (if fgt (last (col_close df)) (last (rolling period period agg_mean (col_close df)))
                then ''BUY'' else ''SELL'',
                PFloat (last (rolling period period agg_mean (col_close df))))"
  using assms by (simp add: calculate_sma_def Let_def bind_r_def iloc_last_def col_close_def)


text \<open>
  C7 (amended). In \<open>calculate_sma\<close>, on a window that is not empty and has at least
  \<open>period\<close> observations, the signal is \<open>"BUY"\<close> exactly when the latest close
  is strictly greater than the latest SMA value, and \<open>"SELL"\<close> otherwise. In
  \<open>MarketAnalyzer.evaluate_signals\<close> the SMA signal compares the last two SMA values
  instead: it is \<open>"Bullish"\<close> exactly when there are at least two values and the latest
  is strictly greater than the one before, \<open>"Bearish"\<close> exactly when there are two and
  it is not, and \<open>"No Data Available"\<close> exactly when there are fewer than two; it takes
  no other value.
\<close>

theorem sma_signal_rule:
  "(period \<le> length df \<and> df \<noteq> [] \<longrightarrow>
      (\<exists>sig. calculate_sma df period =
                Inr (sig, PFloat (last (rolling period period agg_mean (col_close df))))
         \<and> (sig = ''BUY'' \<longleftrightarrow>
              fgt (last (col_close df)) (last (rolling period period agg_mean (col_close df))))
         \<and> (sig = ''SELL'' \<longleftrightarrow>
              \<not> fgt (last (col_close df)) (last (rolling period period agg_mean (col_close df))))))
   \<and> (sma_signal_of s = ''Bullish'' \<longleftrightarrow> 1 < length s \<and> fgt (last s) (s ! (length s - 2)))
   \<and> (sma_signal_of s = ''Bearish'' \<longleftrightarrow> 1 < length s \<and> \<not> fgt (last s) (s ! (length s - 2)))
   \<and> (sma_signal_of s = ''No Data Available'' \<longleftrightarrow> \<not> 1 < length s)
   \<and> sma_signal_of s =
        (if 1 < length s
         then (if fgt (last s) (s ! (length s - 2)) then ''Bullish'' else ''Bearish'')
         else ''No Data Available'')
   \<and> (evaluate_signals self a b c sma e f g h stx = Inr signals \<longrightarrow>
        signals ! 2 = sma_signal_of (dropna sma))"
  by (auto simp: calculate_sma_signal sma_signal_of_def evaluate_signals_cases split: if_splits)

theorem sma_signal_rule_witness:
  "calculate_sma rising_candles 2 = Inr (''BUY'', PFloat (Fin (5 / 2)))
   \<and> sma_signal_of [Fin 30, Fin 40] = ''Bullish''
   \<and> sma_signal_of [Fin 40, Fin 30] = ''Bearish''
   \<and> sma_signal_of [Fin 30] = ''No Data Available''
   \<and> evaluate_signals example_ma [NaN] [Fin 0] [Fin 0] [NaN, Fin 30, Fin 40] [NaN] [NaN] [NaN]
        [NaN] [Fin 50]
       = Inr [''No Data Available'', ''Bearish'', ''Bullish'', ''No Data Available'',
              ''No Data Available'', ''No Data Available'']"
proof -
  have short: "\<not> 1 < length [Fin 30]" "1 < length [Fin 40, Fin 30]"
    "\<not> fgt (last [Fin 40, Fin 30]) ([Fin 40, Fin 30] ! (length [Fin 40, Fin 30] - 2))"
    by (simp_all add: fl_eval)
  have sma: "rolling 2 2 agg_mean (col_close rising_candles) = [NaN, Fin (3 / 2), Fin (5 / 2)]"
    by (simp add: rising_candles_def fl_eval series_eval)
  have lc: "last (col_close rising_candles) = Fin 3" "2 \<le> length rising_candles"
    "rising_candles \<noteq> []"
    by (simp_all add: rising_candles_def col_close_def)
  have gt: "fgt (Fin 3) (Fin (5 / 2))" "fgt (Fin 40) (Fin 30)" by (simp_all add: fl_eval)
  have ev: "evaluate_signals example_ma [NaN] [Fin 0] [Fin 0] [NaN, Fin 30, Fin 40] [NaN] [NaN]
              [NaN] [NaN] [Fin 50]
            = Inr [''No Data Available'', ''Bearish'', ''Bullish'', ''No Data Available'',
                   ''No Data Available'', ''No Data Available'']"
    by (simp add: evaluate_signals_cases dropna_def rsi_signal_of_def macd_signal_of_def
          sma_signal_of_def bollinger_signal_of_def adx_signal_of_def vtr_signal_of_def fl_eval)
  show ?thesis
    using sma_signal_rule [of 2 rising_candles "[Fin 30, Fin 40]" example_ma "[NaN]" "[Fin 0]"
        "[Fin 0]" "[NaN, Fin 30, Fin 40]" "[NaN]" "[NaN]" "[NaN]" "[NaN]" "[Fin 50]"
        "[''No Data Available'', ''Bearish'', ''Bullish'', ''No Data Available'',
          ''No Data Available'', ''No Data Available'']"]
      sma_signal_rule [of 2 rising_candles "[Fin 30]"]
      sma_signal_rule [of 2 rising_candles "[Fin 40, Fin 30]"] sma lc gt ev short
    by auto
qed


text \<open>
  On the closes 10, 50, 30 with period 2 the SMA values are 30 and 40: the latest close 30
  is below the latest SMA 40, and \<open>evaluate_signals\<close> answers \<open>"Bullish"\<close>.
\<close>

lemma swing_sma: "ma_calculate_sma swing_ma = [NaN, Fin 30, Fin 40]"
  by (simp add: swing_ma_def ma_calculate_sma_def fl_eval series_eval)

lemma swing_stx: "dropna (ma_calculate_stochastic_oscillator swing_ma) \<noteq> []"
  by (simp add: swing_ma_def ma_calculate_stochastic_oscillator_def stochastic_series_def
        fl_eval series_eval)

theorem sma_trend_counterexample:
  "ma_calculate_sma swing_ma = [NaN, Fin 30, Fin 40]
   \<and> last (col_close (ma_historical_data swing_ma)) = Fin 30
   \<and> ma_price swing_ma = Fin 30
   \<and> \<not> fgt (Fin 30) (Fin 40)
   \<and> \<not> isl (evaluate_signals swing_ma (ma_calculate_rsi swing_ma)
               (fst (ma_calculate_macd swing_ma 12 26 9)) (snd (ma_calculate_macd swing_ma 12 26 9))
               (ma_calculate_sma swing_ma)
               (fst (ma_calculate_bollinger_bands swing_ma (Fin 2)))
               (snd (ma_calculate_bollinger_bands swing_ma (Fin 2)))
               (fst (ma_calculate_adx swing_ma)) (ma_calculate_vtr swing_ma)
               (ma_calculate_stochastic_oscillator swing_ma))
   \<and> projr (evaluate_signals swing_ma (ma_calculate_rsi swing_ma)
               (fst (ma_calculate_macd swing_ma 12 26 9)) (snd (ma_calculate_macd swing_ma 12 26 9))
               (ma_calculate_sma swing_ma)
               (fst (ma_calculate_bollinger_bands swing_ma (Fin 2)))
               (snd (ma_calculate_bollinger_bands swing_ma (Fin 2)))
               (fst (ma_calculate_adx swing_ma)) (ma_calculate_vtr swing_ma)
               (ma_calculate_stochastic_oscillator swing_ma)) ! 2 = ''Bullish''"
proof -
  have "sma_signal_of (dropna [NaN, Fin 30, Fin 40]) = ''Bullish''"
    by (simp add: sma_signal_of_def dropna_def fl_eval)
  moreover have "last (col_close (ma_historical_data swing_ma)) = Fin 30" "ma_price swing_ma = Fin 30"
    by (simp_all add: swing_ma_def col_close_def)
  moreover have "\<not> fgt (Fin 30) (Fin 40)" by (simp add: fl_eval)
  ultimately show ?thesis
    using swing_stx by (simp add: evaluate_signals_cases swing_sma)
qed


subsection \<open>Short windows\<close>

lemma strategy_short_window:
  assumes "length df < period"
  shows "calculate_rsi df period = Inr (''NEUTRAL'', PNone)"
    and "calculate_sma df period = Inr (''NEUTRAL'', PNone)"
    and "calculate_bollinger_bands df period k = Inr (''NEUTRAL'', PPair PNone PNone)"
    and "calculate_vtr df period = Inr (''NEUTRAL'', PNone)"
    and "calculate_stochastic df period smooth_d = Inr (''NEUTRAL'', PPair PNone PNone)"
  using assms
  by (simp_all add: calculate_rsi_def calculate_sma_def calculate_bollinger_bands_def
        calculate_vtr_def calculate_stochastic_def)

lemma strategy_short_window_macd:
  "length df < long_period \<Longrightarrow>
     calculate_macd df short_period long_period signal_period = Inr (''NEUTRAL'', PNone)"
  by (simp add: calculate_macd_def)

lemma strategy_short_window_ichimoku:
  "length df < 52 \<Longrightarrow> calculate_adx df period = Inr (''NEUTRAL'', PNone)"
  by (simp add: calculate_adx_def)

text \<open>The streaming analyzer with the default period 14 after a single observation.\<close>

lemma short_tr: "ws_true_range [example_candle] = [Fin 2]"
  by (simp add: example_candle_def ws_true_range_def fl_eval series_eval)

lemma short_atr: "ws_atr 14 [example_candle] = [NaN]"
  by (simp add: ws_atr_def short_tr fl_eval series_eval)

lemma short_di: "ws_plus_di 14 [example_candle] = [NaN]" "ws_minus_di 14 [example_candle] = [NaN]"
  by (simp_all add: ws_plus_di_def ws_minus_di_def example_dm short_atr fl_eval series_eval)

lemma short_adx_series: "ws_adx_series 14 [example_candle] = [NaN]"
  by (simp add: ws_adx_series_def short_di fl_eval series_eval)

lemma short_adx: "ws_calculate_adx short_ws = Inr (RStr ''SELL'')"
  by (simp add: short_ws_def ws_calculate_adx_def short_adx_series fl_eval series_eval)

lemma short_rsi: "ws_calculate_rsi short_ws = Inr (RStr ''NEUTRAL'')"
  by (simp add: short_ws_def example_candle_def ws_calculate_rsi_def fl_eval series_eval)

lemma short_macd: "ws_calculate_macd short_ws 12 26 9 = Inr (RStr ''NEUTRAL'')"
  by (simp add: short_ws_def example_candle_def ws_calculate_macd_def fl_eval series_eval)

lemma short_sma: "ws_calculate_sma short_ws = Inr (''NEUTRAL'', PNone)"
  by (simp add: short_ws_def ws_calculate_sma_def)

lemma short_bollinger: "ws_calculate_bollinger_bands short_ws (Fin 2) = Inr (RStr ''Error'')"
  by (simp add: ws_calculate_bollinger_bands_def short_sma bind_r_def)

lemma short_vtr: "ws_calculate_vtr short_ws = [NaN]"
  by (simp add: short_ws_def example_candle_def ws_calculate_vtr_def fl_eval series_eval)

lemma short_stochastic: "ws_calculate_stochastic_oscillator short_ws = [NaN]"
  by (simp add: short_ws_def example_candle_def ws_calculate_stochastic_oscillator_def
        stochastic_series_def fl_eval series_eval)

lemma short_run_strategies:
  "run_strategies short_ws =
     Inr [RStr ''NEUTRAL'', RStr ''NEUTRAL'', RTuple ''NEUTRAL'' PNone, RStr ''Error'',
          RStr ''SELL'', RSeries [NaN], RSeries [NaN]]"
  by (simp add: run_strategies_def short_rsi short_macd short_sma short_bollinger short_adx
        short_vtr short_stochastic bind_r_def)

lemma two_macd: 
  "ws_calculate_macd (short_ws\<lparr>ws_historical_data := two_candles\<rparr>) 12 26 9 = Inr (RStr ''BUY'')"
  by (simp add: short_ws_def two_candles_def ws_calculate_macd_def fl_eval series_eval)

lemma empty_rsi: "ws_calculate_rsi (short_ws\<lparr>ws_historical_data := []\<rparr>) = Inl IndexError"
  by (simp add: short_ws_def ws_calculate_rsi_def fl_eval series_eval)

text \<open>
  C2. On a window shorter than the period the functions of app/utils/strategy.py answer
  \<open>"NEUTRAL"\<close> with no value (\<open>strategy_short_window\<close>). The strategies of
  \<open>WebSocketAnalyzer\<close> have no such check: with the default period 14 and one
  observation \<open>calculate_adx\<close> answers \<open>"SELL"\<close>, which \<open>calculate_signal\<close> counts as
  a sell vote; with two rising observations \<open>calculate_macd\<close> answers \<open>"BUY"\<close>; and on
  an empty frame \<open>calculate_rsi\<close> raises \<open>IndexError\<close>.
\<close>

theorem ws_short_window_votes:
  "length (ws_historical_data short_ws) < ws_period short_ws
   \<and> ws_calculate_adx short_ws = Inr (RStr ''SELL'')
   \<and> run_strategies short_ws =
        Inr [RStr ''NEUTRAL'', RStr ''NEUTRAL'', RTuple ''NEUTRAL'' PNone, RStr ''Error'',
             RStr ''SELL'', RSeries [NaN], RSeries [NaN]]
   \<and> sell_count example_rendering
        [RStr ''NEUTRAL'', RStr ''NEUTRAL'', RTuple ''NEUTRAL'' PNone, RStr ''Error'',
         RStr ''SELL'', RSeries [NaN], RSeries [NaN]] = 1
   \<and> ws_calculate_macd (short_ws\<lparr>ws_historical_data := two_candles\<rparr>) 12 26 9
        = Inr (RStr ''BUY'')
   \<and> ws_calculate_rsi (short_ws\<lparr>ws_historical_data := []\<rparr>) = Inl IndexError"
proof -
  have "length (ws_historical_data short_ws) < ws_period short_ws"
    by (simp add: short_ws_def)
  moreover have "sell_count example_rendering
        [RStr ''NEUTRAL'', RStr ''NEUTRAL'', RTuple ''NEUTRAL'' PNone, RStr ''Error'',
         RStr ''SELL'', RSeries [NaN], RSeries [NaN]] = 1"
    by (simp add: sell_count_def py_str_def example_rendering_def)
  ultimately show ?thesis
    by (simp add: short_adx short_run_strategies two_macd empty_rsi)
qed

subsection \<open>The ADX of MarketAnalyzer against the specified algorithm\<close>


lemma map2_nth: "i < length xs \<Longrightarrow> i < length ys \<Longrightarrow> map2 f xs ys ! i = f (xs ! i) (ys ! i)"
  by simp




lemma length_adx_stages [simp]:
  "length (spec_true_range df) = length df"
  "length (ma_true_range df) = length df"
  "length (spec_plus_dm r df) = length df"
  "length (spec_minus_dm r df) = length df"
  "length (ma_plus_dm df) = length df"
  "length (ma_minus_dm df) = length df"
  "length (spec_atr p df) = length df"
  "length (ma_atr p df) = length df"
  by (simp_all add: spec_true_range_def ma_true_range_def spec_plus_dm_def spec_minus_dm_def
        ma_plus_dm_def ma_minus_dm_def spec_atr_def ma_atr_def row_max3_def ssub_def sabs_def
        where_s_def and_s_def gt_s_def gt_c_def col_high_def col_low_def col_close_def Let_def)

lemma ma_plus_dm_nth:
  assumes "i < length df"
  shows "ma_plus_dm df ! i =
           (if i = 0 then Fin 0
            else (let up = fsub (high (df ! i)) (high (df ! (i - 1)));
                      dn = fsub (low (df ! i)) (low (df ! (i - 1)))
                  in if fgt up dn \<and> fgt up (Fin 0) then up else Fin 0))"
  using assms
  by (simp add: ma_plus_dm_def where_s_def and_s_def gt_s_def gt_c_def diff_def
        col_high_def col_low_def Let_def fgt_def flt_def)


lemma ma_minus_dm_nth:
  assumes "i < length df"
  shows "ma_minus_dm df ! i =
           (if i = 0 then Fin 0
            else (let dn = fsub (low (df ! i)) (low (df ! (i - 1)))
                  in if fgt dn (ma_plus_dm df ! i) \<and> fgt dn (Fin 0) then dn else Fin 0))"
  using assms
  by (simp add: ma_minus_dm_def where_s_def and_s_def gt_s_def gt_c_def diff_def
        col_low_def Let_def fgt_def flt_def)




lemma ma_minus_dm_fin:
  assumes "list_all finite_candle df"
  shows "list_all is_fin (ma_minus_dm df)"
proof -
  have "is_fin (fsub (low (df ! i)) (low (df ! (i - 1))))" if "i < length df" for i
  proof -
    have "finite_candle (df ! i)" "finite_candle (df ! (i - 1))"
      using assms that by (simp_all add: list_all_length)
    then show ?thesis using fsub_fin by (simp add: finite_candle_def)
  qed
  then show ?thesis
    by (auto simp: list_all_length ma_minus_dm_nth Let_def)
qed







lemma length_di_stages [simp]:
  "length (ma_plus_di p df) = length df"
  "length (ma_minus_di p df) = length df"
  "length (spec_plus_di r p df) = length df"
  "length (spec_minus_di r p df) = length df"
  "length (spec_dx r p df) = length df"
  "length (ma_dx p df) = length df"
  by (simp_all add: ma_plus_di_def ma_minus_di_def spec_plus_di_def spec_minus_di_def spec_di_def
        spec_dx_def ma_dx_def smul_c_def sdiv_def sabs_def ssub_def sadd_def replace_inf_def Let_def)


































lemma tie_minus_dm:
  "ma_plus_dm tie_candles = [Fin 0, Fin 0]"
  "ma_minus_dm tie_candles = [Fin 0, Fin 1]"
  "spec_minus_dm RiseOfLow tie_candles = [Fin 0, Fin 0]"
  by (simp_all add: ma_minus_dm_nth ma_plus_dm_nth spec_minus_dm_def tie_candles_def fl_eval Let_def
        list_eq_iff_nth_eq less_Suc_eq)







subsection \<open>The risk ceiling of the streaming analyzer\<close>

text \<open>In exact arithmetic the position size times the price is the risk amount.\<close>

lemma position_size_times_price_exact:
  "price \<noteq> 0 \<Longrightarrow> (balance * risk_pct / 100) / price * price = balance * risk_pct / (100::real)"
  by simp

lemma strategies_price:
  "ws_calculate_rsi (self\<lparr>ws_price := p\<rparr>) = ws_calculate_rsi self"
  "ws_calculate_macd (self\<lparr>ws_price := p\<rparr>) a b c = ws_calculate_macd self a b c"
  "ws_calculate_sma (self\<lparr>ws_price := p\<rparr>) = ws_calculate_sma self"
  "ws_calculate_adx (self\<lparr>ws_price := p\<rparr>) = ws_calculate_adx self"
  "ws_calculate_vtr (self\<lparr>ws_price := p\<rparr>) = ws_calculate_vtr self"
  "ws_calculate_stochastic_oscillator (self\<lparr>ws_price := p\<rparr>)
     = ws_calculate_stochastic_oscillator self"
  unfolding ws_calculate_rsi_def ws_calculate_macd_def ws_calculate_sma_def ws_calculate_adx_def
    ws_calculate_vtr_def ws_calculate_stochastic_oscillator_def
  by (simp_all cong: if_cong)

lemma bollinger_price:
  "ws_calculate_bollinger_bands (self\<lparr>ws_price := p\<rparr>) k = ws_calculate_bollinger_bands self k"
  unfolding ws_calculate_bollinger_bands_def strategies_price
  by (simp cong: if_cong pyval.case_cong)

lemma run_strategies_price: "run_strategies (self\<lparr>ws_price := p\<rparr>) = run_strategies self"
  unfolding run_strategies_def strategies_price bollinger_price ..

lemma risky_ws_eq: "risky_ws = example_ws\<lparr>ws_price := Some 11\<rparr>"
  by (simp add: risky_ws_def example_ws_def)

lemma risky_position_size:
  "calculate_position_size risky_ws = Inr (5117726849284655 / 281474976710656)"
  by (simp add: calculate_position_size_def risky_ws_def f64_20000 f64_200 f64_200_div_11)

lemma risky_check_risk: "ws_check_risk risky_ws = Inr False"
proof -
  have "ws_price risky_ws = Some 11"
    "f64 (f64 (ws_balance risky_ws * ws_risk_threshold risky_ws) / 100) = 200"
    by (simp_all add: risky_ws_def f64_20000 f64_200)
  then show ?thesis
    by (simp add: ws_check_risk_def risky_position_size bind_r_def f64_times_11)
qed

text \<open>
  C9. With the balance 10000, the risk percentage 2 and the price 11, the position size of
  \<open>calculate_position_size\<close> is \<open>200 / 11\<close> rounded to binary64, and its product with the
  price rounds to a number above the risk amount 200: \<open>check_risk\<close> rejects the size that
  \<open>calculate_position_size\<close> produced, and \<open>analyze\<close> answers \<open>"No Action"\<close>.
\<close>

theorem risk_gate_rejects_own_size:
  "0 < ws_balance risky_ws \<and> ws_price risky_ws = Some 11
   \<and> calculate_position_size risky_ws = Inr (5117726849284655 / 281474976710656)
   \<and> f64 (5117726849284655 / 281474976710656 * 11) > 200
   \<and> ws_check_risk risky_ws = Inr False
   \<and> ws_analyze example_rendering (risky_ws\<lparr>ws_historical_data := []\<rparr>) [[example_candle]]
        = Inr (''No Action'', risky_ws)"
proof -
  have u: "update_data (risky_ws\<lparr>ws_historical_data := []\<rparr>) [[example_candle]] = Inr risky_ws"
    by (simp add: update_data_def risky_ws_def add_ticker_def example_candle_def
          row_has_nan_def fl_eval)
  have r: "run_strategies risky_ws = run_strategies example_ws"
    by (simp add: risky_ws_eq run_strategies_price)
  have "ws_analyze example_rendering (risky_ws\<lparr>ws_historical_data := []\<rparr>) [[example_candle]]
        = Inr (''No Action'', risky_ws)"
    by (simp add: ws_analyze_def u r example_run_strategies risky_check_risk bind_r_def)
  moreover have "0 < ws_balance risky_ws \<and> ws_price risky_ws = Some 11"
    by (simp add: risky_ws_def)
  ultimately show ?thesis
    by (simp add: risky_position_size risky_check_risk f64_times_11)
qed

end
